theory Spec2Isabelle
  imports Main "HOL-Library.Sublist"
begin

section \<open>Python values\<close>

text \<open>
  A Python \<^verbatim>\<open>str\<close> is a sequence of Unicode code points, so a string is a list of
  natural numbers, one per code point: \<^verbatim>\<open>len\<close>, \<^verbatim>\<open>in\<close>, \<^verbatim>\<open>split\<close> and
  \<^verbatim>\<open>strip\<close> of the source count and compare code points.  ASCII literals of the source
  are written through \<open>ascii\<close>; the Chinese literals are written as their code points.
\<close>

type_synonym pystr = "nat list"

definition ascii :: "string \<Rightarrow> pystr" where
  "ascii s = map of_char s"

text \<open>
  The values that travel through a plan, through keyword arguments and through message
  metadata are what \<^verbatim>\<open>json.loads\<close> produces: \<^verbatim>\<open>None\<close>, booleans, integers,
  floats (kept as the decimal literal they were read from), strings, lists and
  dictionaries (insertion-ordered, keys unique).
\<close>

datatype json =
    JNull
  | JBool bool
  | JInt int
  | JFloat pystr
  | JStr pystr
  | JArray "json list"
  | JObject "(pystr \<times> json) list"

text \<open>A keyword-argument dictionary \<^verbatim>\<open>**kwargs\<close>: string keys, arbitrary values.\<close>

type_synonym kwargs = "(pystr \<times> json) list"

definition dict_get :: "('k \<times> 'v) list \<Rightarrow> 'k \<Rightarrow> 'v option" where
  "dict_get d k = map_of d k"

fun dict_set :: "('k \<times> 'v) list \<Rightarrow> 'k \<Rightarrow> 'v \<Rightarrow> ('k \<times> 'v) list" where
  "dict_set [] k v = [(k, v)]"
| "dict_set ((k', v') # d) k v = (if k' = k then (k, v) # d else (k', v') # dict_set d k v)"

definition dict_setdefault :: "('k \<times> 'v) list \<Rightarrow> 'k \<Rightarrow> 'v \<Rightarrow> ('k \<times> 'v) list" where
  "dict_setdefault d k v = (case dict_get d k of None \<Rightarrow> dict_set d k v | Some _ \<Rightarrow> d)"

text \<open>
  Python's slice \<^verbatim>\<open>xs[i:]\<close>: a negative start counts from the end and is clamped
  at the front, a non-negative one is clamped at the end.  \<^verbatim>\<open>xs[-0:]\<close> is
  \<^verbatim>\<open>xs[0:]\<close>, the whole list.
\<close>

definition py_slice_from :: "'a list \<Rightarrow> int \<Rightarrow> 'a list" where
  "py_slice_from xs i =
     (if i < 0 then drop (nat (int (length xs) + i)) xs else drop (nat i) xs)"


text \<open>
  The code points \<^verbatim>\<open>str.strip()\<close> removes: those for which \<^verbatim>\<open>str.isspace\<close>
  holds.
\<close>

definition py_isspace :: "nat \<Rightarrow> bool" where
  "py_isspace c =
     ((9 \<le> c \<and> c \<le> 13) \<or> (28 \<le> c \<and> c \<le> 32) \<or> c = 133 \<or> c = 160 \<or> c = 5760 \<or>
      (8192 \<le> c \<and> c \<le> 8202) \<or> c = 8232 \<or> c = 8233 \<or> c = 8239 \<or> c = 8287 \<or>
      c = 12288)"

definition py_lstrip :: "pystr \<Rightarrow> pystr" where
  "py_lstrip s = dropWhile py_isspace s"

definition py_rstrip :: "pystr \<Rightarrow> pystr" where
  "py_rstrip s = rev (dropWhile py_isspace (rev s))"

definition py_strip :: "pystr \<Rightarrow> pystr" where
  "py_strip s = py_rstrip (py_lstrip s)"

text \<open>\<^verbatim>\<open>sub in s\<close> for strings.\<close>

fun contains :: "pystr \<Rightarrow> pystr \<Rightarrow> bool" where
  "contains sub [] = (sub = [])"
| "contains sub (c # cs) = (prefix sub (c # cs) \<or> contains sub cs)"

text \<open>
  \<^verbatim>\<open>s.split(sub, 1)\<close> for a separator that occurs in \<open>s\<close>: the text before the
  first occurrence and the text after it; \<open>None\<close> when \<open>sub\<close> does not occur.  The
  separators of the source are non-empty literals.
\<close>

fun split_first :: "pystr \<Rightarrow> pystr \<Rightarrow> (pystr \<times> pystr) option" where
  "split_first sub [] = (if sub = [] then Some ([], []) else None)"
| "split_first sub (c # cs) =
     (if prefix sub (c # cs) then Some ([], drop (length sub) (c # cs))
      else (case split_first sub cs of
              None \<Rightarrow> None
            | Some (b, a) \<Rightarrow> Some (c # b, a)))"


text \<open>
  \<^verbatim>\<open>s.split(sub, 1)[1]\<close>, which the source takes only where \<open>sub\<close> occurs in
  \<open>s\<close>, and \<^verbatim>\<open>s.split(sub)[0]\<close>, which is \<open>s\<close> itself where it does not.
\<close>

definition after_first :: "pystr \<Rightarrow> pystr \<Rightarrow> pystr" where
  "after_first sub s = (case split_first sub s of None \<Rightarrow> [] | Some (b, a) \<Rightarrow> a)"

definition before_first :: "pystr \<Rightarrow> pystr \<Rightarrow> pystr" where
  "before_first sub s = (case split_first sub s of None \<Rightarrow> s | Some (b, a) \<Rightarrow> b)"

text \<open>\<^verbatim>\<open>s.rstrip(";")\<close>.\<close>

definition rstrip_semicolons :: "pystr \<Rightarrow> pystr" where
  "rstrip_semicolons s = rev (dropWhile (\<lambda>c. c = 59) (rev s))"

text \<open>An optional string read with \<^verbatim>\<open>kwargs.get(key, "")\<close>; it is true when non-empty.\<close>

definition text_of :: "pystr option \<Rightarrow> pystr" where
  "text_of x = (case x of None \<Rightarrow> [] | Some s \<Rightarrow> s)"


section \<open>core/dialogue\_context.py\<close>

record message =
  role :: pystr
  content :: pystr
  timestamp :: pystr
  metadata :: kwargs

record dialogue_context =
  messages :: "message list"
  max_history :: int
  current_session_id :: "pystr option"
  session_start_time :: "pystr option"

text \<open>
  The three readings of \<^verbatim>\<open>datetime.now()\<close> that one \<^verbatim>\<open>add_message\<close> call can
  take: the session id and start time of a session it has to open, and the stamp of the
  message.
\<close>

record clock =
  session_stamp :: pystr
  start_stamp :: pystr
  message_stamp :: pystr

definition init_context :: "int \<Rightarrow> dialogue_context" where
  "init_context n =
     \<lparr>messages = [], max_history = n, current_session_id = None, session_start_time = None\<rparr>"

definition start_new_session :: "clock \<Rightarrow> dialogue_context \<Rightarrow> dialogue_context" where
  "start_new_session clk ctx =
     ctx\<lparr>current_session_id := Some (session_stamp clk),
         session_start_time := Some (start_stamp clk),
         messages := []\<rparr>"

text \<open>\<^verbatim>\<open>not self.current_session_id\<close>: true for \<^verbatim>\<open>None\<close> and for the empty string.\<close>

definition no_session :: "dialogue_context \<Rightarrow> bool" where
  "no_session ctx = (case current_session_id ctx of None \<Rightarrow> True | Some s \<Rightarrow> s = [])"

definition add_message ::
  "clock \<Rightarrow> pystr \<Rightarrow> pystr \<Rightarrow> kwargs option \<Rightarrow> dialogue_context \<Rightarrow> dialogue_context" where
  "add_message clk r c md ctx =
     (let ctx1 = (if no_session ctx then start_new_session clk ctx else ctx);
          m = \<lparr>role = r, content = c, timestamp = message_stamp clk,
               metadata = (case md of None \<Rightarrow> [] | Some d \<Rightarrow> d)\<rparr>;
          ms = messages ctx1 @ [m]
      in if int (length ms) > max_history ctx1
         then ctx1\<lparr>messages := py_slice_from ms (- max_history ctx1)\<rparr>
         else ctx1\<lparr>messages := ms\<rparr>)"

definition clear_context :: "dialogue_context \<Rightarrow> dialogue_context" where
  "clear_context ctx =
     ctx\<lparr>messages := [], current_session_id := None, session_start_time := None\<rparr>"

definition get_context_window :: "int \<Rightarrow> dialogue_context \<Rightarrow> message list" where
  "get_context_window window_size ctx =
     (if messages ctx \<noteq> [] then py_slice_from (messages ctx) (- window_size) else [])"

text \<open>
  The representation invariant of the class: the constructor and \<^verbatim>\<open>clear_context\<close>
  leave no session and no messages, and only \<^verbatim>\<open>start_new_session\<close> sets the id.
\<close>

definition session_ok :: "dialogue_context \<Rightarrow> bool" where
  "session_ok ctx = (messages ctx = [] \<or> \<not> no_session ctx)"


text \<open>\<^verbatim>\<open>sep.join(parts)\<close>.\<close>

fun py_join :: "pystr \<Rightarrow> pystr list \<Rightarrow> pystr" where
  "py_join sep [] = []"
| "py_join sep [x] = x"
| "py_join sep (x # y # ys) = x @ sep @ py_join sep (y # ys)"

text \<open>
  \<^verbatim>\<open>get_formatted_history\<close>: the label is the two-character word for "user"
  (U+7528 U+6237) for the role \<^verbatim>\<open>user\<close> and the one for "assistant"
  (U+52A9 U+624B) otherwise; an empty window gives the five-character literal for
  "no history".
\<close>

definition format_message :: "message \<Rightarrow> pystr" where
  "format_message m =
     (if role m = ascii ''user'' then [29992, 25143] else [21161, 25163])
       @ ascii '': '' @ content m"

definition get_formatted_history :: "int \<Rightarrow> dialogue_context \<Rightarrow> pystr" where
  "get_formatted_history window_size ctx =
     (let recent = get_context_window window_size ctx
      in if recent = [] then [26080, 21382, 21490, 23545, 35805]
         else py_join (ascii [CHR 0x0A]) (map format_message recent))"


section \<open>tools/base\_tool.py and agent/tool\_registry.py\<close>

text \<open>
  A query result as the tools see it: the column labels with the class of dtype the
  source tests for (\<^verbatim>\<open>is_datetime64_any_dtype\<close>, \<^verbatim>\<open>is_numeric_dtype\<close>), and
  the number of rows.  \<^verbatim>\<open>df.empty\<close> holds when an axis has length 0.
\<close>

datatype dtype = Numeric | Datetime | Object

record dataframe =
  columns :: "(pystr \<times> dtype) list"
  nrows :: nat

definition df_empty :: "dataframe \<Rightarrow> bool" where
  "df_empty df = (nrows df = 0 \<or> columns df = [])"

text \<open>
  The dictionary a tool returns.  \<^verbatim>\<open>BaseTool.execute\<close> documents that every
  implementation returns at least \<^verbatim>\<open>"success": bool\<close> and \<^verbatim>\<open>"result": str\<close>;
  \<^verbatim>\<open>data\<close>, \<^verbatim>\<open>image_path\<close> and \<^verbatim>\<open>dataframe\<close> are optional keys, and the
  agent adds \<^verbatim>\<open>tool\<close> and \<^verbatim>\<open>reason\<close>.  An absent key is \<open>None\<close>.
\<close>

record step_result =
  success :: bool
  result :: pystr
  data :: "json option"
  image_path :: "pystr option"
  dataframe :: "dataframe option"
  tool :: "pystr option"
  reason :: "pystr option"

definition failure :: "pystr \<Rightarrow> step_result" where
  "failure msg =
     \<lparr>success = False, result = msg, data = None, image_path = None, dataframe = None,
      tool = None, reason = None\<rparr>"

text \<open>
  An exception whose class derives from \<^verbatim>\<open>Exception\<close>: its class name and
  \<^verbatim>\<open>str(e)\<close>.  (\<^verbatim>\<open>SystemExit\<close> and \<^verbatim>\<open>KeyboardInterrupt\<close>, which
  \<^verbatim>\<open>except Exception\<close> lets through, are signals to the interpreter and are not
  modelled.)
\<close>

datatype py_exception = PyException pystr pystr

fun exc_str :: "py_exception \<Rightarrow> pystr" where
  "exc_str (PyException cls msg) = msg"

text \<open>
  A tool works on the database, the language model and the file system: \<open>'w\<close> is the
  state of that outside world, which \<^verbatim>\<open>execute\<close> reads and changes.  It returns its
  dictionary or raises.
\<close>

record 'w base_tool =
  name :: pystr
  description :: pystr
  parameters_description :: pystr
  execute :: "kwargs \<Rightarrow> 'w \<Rightarrow> (py_exception + step_result) \<times> 'w"

text \<open>\<^verbatim>\<open>safe_execute\<close>: the \<^verbatim>\<open>try\<close> around \<^verbatim>\<open>self.execute(**kwargs)\<close>.\<close>

definition safe_execute :: "'w base_tool \<Rightarrow> kwargs \<Rightarrow> 'w \<Rightarrow> step_result \<times> 'w" where
  "safe_execute t kw w =
     (case execute t kw w of
        (Inr r, w') \<Rightarrow> (r, w')
      | (Inl e, w') \<Rightarrow>
          (failure ([24037, 20855, 32] @ name t @ [32, 25191, 34892, 22833, 36133, 58, 32]
                    @ exc_str e), w'))"

type_synonym 'w tool_registry = "(pystr \<times> 'w base_tool) list"

definition register :: "'w base_tool \<Rightarrow> 'w tool_registry \<Rightarrow> 'w tool_registry" where
  "register t reg = dict_set reg (name t) t"

definition registry_get :: "'w tool_registry \<Rightarrow> pystr \<Rightarrow> 'w base_tool option" where
  "registry_get reg n = dict_get reg n"

definition get_description :: "'w base_tool \<Rightarrow> pystr \<times> pystr \<times> pystr" where
  "get_description t = (name t, description t, parameters_description t)"

definition get_descriptions :: "'w tool_registry \<Rightarrow> (pystr \<times> pystr \<times> pystr) list" where
  "get_descriptions reg = map (get_description \<circ> snd) reg"

text \<open>
  The body of \<^verbatim>\<open>ToolRegistry.execute(self, name, **kwargs)\<close>, with \<open>kw\<close> the
  dictionary bound to \<^verbatim>\<open>kwargs\<close>.
\<close>

definition execute_body ::
  "'w tool_registry \<Rightarrow> pystr \<Rightarrow> kwargs \<Rightarrow> 'w \<Rightarrow> step_result \<times> 'w" where
  "execute_body reg n kw w =
     (case registry_get reg n of
        None \<Rightarrow> (failure ([26410, 25214, 21040, 24037, 20855, 58, 32] @ n), w)
      | Some t \<Rightarrow> safe_execute t kw w)"

text \<open>
  The call \<^verbatim>\<open>registry.execute(tool_name, **args)\<close> of an argument mapping: Python
  binds the keys of \<open>args\<close> as keyword arguments against the signature
  \<^verbatim>\<open>execute(self, name, **kwargs)\<close>.  A key equal to a named parameter that the call
  has already filled positionally (\<^verbatim>\<open>self\<close>, \<^verbatim>\<open>name\<close>) raises
  \<^verbatim>\<open>TypeError: execute() got multiple values for argument ...\<close> before the body
  runs; every other key lands in \<^verbatim>\<open>kwargs\<close>.
\<close>

definition binds :: "kwargs \<Rightarrow> bool" where
  "binds args = (dict_get args (ascii ''self'') = None \<and> dict_get args (ascii ''name'') = None)"

definition registry_execute ::
  "'w tool_registry \<Rightarrow> pystr \<Rightarrow> kwargs \<Rightarrow> 'w \<Rightarrow> (py_exception + step_result) \<times> 'w" where
  "registry_execute reg n args w =
     (if binds args
      then (case execute_body reg n args w of (r, w') \<Rightarrow> (Inr r, w'))
      else (Inl (PyException (ascii ''TypeError'')
                  (ascii ''execute() got multiple values for argument'')), w))"



section \<open>agent/data\_agent.py\<close>

text \<open>
  One planned invocation, \<^verbatim>\<open>{"tool": ..., "args": {...}, "reason": ...}\<close>.  The
  source reads the three keys with \<^verbatim>\<open>step.get\<close>, so each may be absent.
\<close>

record plan_step =
  step_tool :: "pystr option"
  step_args :: "kwargs option"
  step_reason :: "pystr option"

text \<open>
  The three operations of \<^verbatim>\<open>LLMClient\<close> that the agent calls.  Each is a round trip
  to the language model: it reads and changes the outside world and may raise.
\<close>

record 'w llm_client =
  plan_tools ::
    "pystr \<Rightarrow> (pystr \<times> pystr \<times> pystr) list \<Rightarrow> pystr \<Rightarrow> pystr \<Rightarrow> 'w
       \<Rightarrow> (py_exception + plan_step list) \<times> 'w"
  general_chat :: "pystr \<Rightarrow> 'w \<Rightarrow> (py_exception + pystr) \<times> 'w"
  summarise_results ::
    "pystr \<Rightarrow> step_result list \<Rightarrow> pystr \<Rightarrow> 'w \<Rightarrow> (py_exception + pystr) \<times> 'w"

record 'w agent =
  registry :: "'w tool_registry"
  llm :: "'w llm_client"
  dialogue :: dialogue_context
  data_schema :: pystr

definition MAX_STEPS :: nat where
  "MAX_STEPS = 8"

text \<open>The dictionary \<^verbatim>\<open>process_query\<close> returns.\<close>

record query_result =
  response :: pystr
  tool_results :: "step_result list"
  images :: "pystr list"

text \<open>
  The local variables of the loop over the plan (\<^verbatim>\<open>tool_results\<close>,
  \<^verbatim>\<open>images\<close>, \<^verbatim>\<open>accumulated_context\<close>), the outside world, and the record of
  the calls of \<^verbatim>\<open>self.registry.execute\<close> made so far, each with the tool name and
  the argument mapping passed (what the \<^verbatim>\<open>logger.info("Step ...")\<close> line ahead of
  the call announces).
\<close>

record 'w exec_state =
  results :: "step_result list"
  imgs :: "pystr list"
  accumulated_context :: pystr
  world :: 'w
  trace :: "(pystr \<times> kwargs) list"

definition step_name :: "plan_step \<Rightarrow> pystr" where
  "step_name s = (case step_tool s of None \<Rightarrow> [] | Some n \<Rightarrow> n)"

definition step_kwargs :: "plan_step \<Rightarrow> kwargs" where
  "step_kwargs s = (case step_args s of None \<Rightarrow> [] | Some a \<Rightarrow> a)"

definition step_why :: "plan_step \<Rightarrow> pystr" where
  "step_why s = (case step_reason s of None \<Rightarrow> [] | Some r \<Rightarrow> r)"

text \<open>
  The arguments a step is called with: the report generator gets the accumulated context
  and the query as defaults once the context is non-empty, and every step gets the
  history as default \<^verbatim>\<open>context\<close>.
\<close>

definition prepare_args :: "pystr \<Rightarrow> pystr \<Rightarrow> pystr \<Rightarrow> pystr \<Rightarrow> kwargs \<Rightarrow> kwargs" where
  "prepare_args user_query history acc tool_name args =
     (let args1 =
        (if tool_name = ascii ''report_generator'' \<and> acc \<noteq> []
         then dict_setdefault
                (dict_setdefault args (ascii ''analysis_results'') (JStr acc))
                (ascii ''question'') (JStr user_query)
         else args)
      in if dict_get args1 (ascii ''context'') = None
         then dict_set args1 (ascii ''context'') (JStr history)
         else args1)"

text \<open>The line appended to \<^verbatim>\<open>accumulated_context\<close> for one executed step.\<close>

definition digest :: "step_result \<Rightarrow> pystr" where
  "digest r =
     ascii [CHR 0x0A, CHR 0x0A] @ ascii ''### '' @ (case tool r of None \<Rightarrow> [] | Some n \<Rightarrow> n)
       @ ascii '' ('' @ (case reason r of None \<Rightarrow> [] | Some y \<Rightarrow> y) @ ascii '')''
       @ ascii [CHR 0x0A] @ result r"

text \<open>
  One iteration of the loop.  The first component is the exception that left the loop,
  if any; the state is the one reached.
\<close>

definition exec_step ::
  "'w tool_registry \<Rightarrow> pystr \<Rightarrow> pystr \<Rightarrow> plan_step \<Rightarrow> 'w exec_state
     \<Rightarrow> py_exception option \<times> 'w exec_state" where
  "exec_step reg user_query history s st =
     (let tool_name = step_name s; why = step_why s
      in if tool_name = ascii ''general_chat'' then (None, st)
         else
           (let args = prepare_args user_query history (accumulated_context st) tool_name
                         (step_kwargs s);
                st1 = st\<lparr>trace := trace st @ [(tool_name, args)]\<rparr>
            in case registry_execute reg tool_name args (world st) of
                 (Inl e, w') \<Rightarrow> (Some e, st1\<lparr>world := w'\<rparr>)
               | (Inr r0, w') \<Rightarrow>
                   (let r = r0\<lparr>tool := Some tool_name, reason := Some why\<rparr>
                    in (None,
                        st1\<lparr>results := results st @ [r],
                            imgs := (case image_path r of
                                       None \<Rightarrow> imgs st
                                     | Some p \<Rightarrow> if p \<noteq> [] then imgs st @ [p] else imgs st),
                            accumulated_context := accumulated_context st @ digest r,
                            world := w'\<rparr>))))"

fun exec_steps ::
  "'w tool_registry \<Rightarrow> pystr \<Rightarrow> pystr \<Rightarrow> plan_step list \<Rightarrow> 'w exec_state
     \<Rightarrow> py_exception option \<times> 'w exec_state" where
  "exec_steps reg user_query history [] st = (None, st)"
| "exec_steps reg user_query history (s # ss) st =
     (case exec_step reg user_query history s st of
        (Some e, st') \<Rightarrow> (Some e, st')
      | (None, st') \<Rightarrow> exec_steps reg user_query history ss st')"

definition init_state :: "'w \<Rightarrow> 'w exec_state" where
  "init_state w = \<lparr>results = [], imgs = [], accumulated_context = [], world = w, trace = []\<rparr>"

definition is_general_chat_plan :: "plan_step list \<Rightarrow> bool" where
  "is_general_chat_plan plan =
     (case plan of [s] \<Rightarrow> step_tool s = Some (ascii ''general_chat'') | _ \<Rightarrow> False)"

definition analysis_metadata :: "step_result list \<Rightarrow> pystr list \<Rightarrow> kwargs" where
  "analysis_metadata rs is =
     [(ascii ''type'', JStr (ascii ''analysis'')),
      (ascii ''tools_used'',
         JArray (map (\<lambda>r. case tool r of None \<Rightarrow> JNull | Some n \<Rightarrow> JStr n) rs)),
      (ascii ''images'', JArray (map JStr is))]"

text \<open>
  \<^verbatim>\<open>process_query\<close>.  \<open>clk1\<close> and \<open>clk2\<close> are the clock readings of the two
  \<^verbatim>\<open>add_message\<close> calls.  The result is the returned dictionary or the exception that
  propagated, then the agent (its conversation state updated), the world, and the record
  of the \<^verbatim>\<open>registry.execute\<close> calls of this query.
\<close>

definition process_query ::
  "clock \<Rightarrow> clock \<Rightarrow> pystr \<Rightarrow> 'w agent \<Rightarrow> 'w
     \<Rightarrow> (py_exception + query_result) \<times> 'w agent \<times> 'w \<times> (pystr \<times> kwargs) list" where
  "process_query clk1 clk2 user_query ag w =
     (let ctx1 = add_message clk1 (ascii ''user'') user_query None (dialogue ag);
          history = get_formatted_history 10 ctx1;
          ag1 = ag\<lparr>dialogue := ctx1\<rparr>
      in case plan_tools (llm ag) user_query (get_descriptions (registry ag)) history
                (data_schema ag) w of
           (Inl e, w1) \<Rightarrow> (Inl e, ag1, w1, [])
         | (Inr plan, w1) \<Rightarrow>
             if is_general_chat_plan plan
             then (case general_chat (llm ag) user_query w1 of
                     (Inl e, w2) \<Rightarrow> (Inl e, ag1, w2, [])
                   | (Inr answer, w2) \<Rightarrow>
                       (Inr \<lparr>response = answer, tool_results = [], images = []\<rparr>,
                        ag1\<lparr>dialogue := add_message clk2 (ascii ''assistant'') answer
                                (Some [(ascii ''type'', JStr (ascii ''general''))]) ctx1\<rparr>,
                        w2, []))
             else
               (case exec_steps (registry ag) user_query history (take MAX_STEPS plan)
                       (init_state w1) of
                  (Some e, st) \<Rightarrow> (Inl e, ag1, world st, trace st)
                | (None, st) \<Rightarrow>
                    (case (if results st \<noteq> []
                           then summarise_results (llm ag) user_query (results st) history
                                  (world st)
                           else general_chat (llm ag) user_query (world st)) of
                       (Inl e, w2) \<Rightarrow> (Inl e, ag1, w2, trace st)
                     | (Inr final_response, w2) \<Rightarrow>
                         (Inr \<lparr>response = final_response, tool_results = results st,
                               images = imgs st\<rparr>,
                          ag1\<lparr>dialogue := add_message clk2 (ascii ''assistant'') final_response
                                  (Some (analysis_metadata (results st) (imgs st))) ctx1\<rparr>,
                          w2, trace st))))"


text \<open>The calls of \<^verbatim>\<open>registry.execute\<close> that one \<^verbatim>\<open>process_query\<close> made.\<close>

definition registry_calls ::
  "(py_exception + query_result) \<times> 'w agent \<times> 'w \<times> (pystr \<times> kwargs) list
     \<Rightarrow> (pystr \<times> kwargs) list" where
  "registry_calls out = snd (snd (snd out))"

text \<open>A step the loop does not skip.\<close>

definition executable :: "plan_step \<Rightarrow> bool" where
  "executable s = (step_name s \<noteq> ascii ''general_chat'')"



section \<open>tools/data\_visualization.py: the fallback chart type\<close>

text \<open>
  \<^verbatim>\<open>keyword_map\<close>, in the order of the dictionary literal.  The Chinese keywords are
  written as their code points.
\<close>

definition keyword_map :: "(pystr \<times> pystr list) list" where
  "keyword_map =
     [(ascii ''pie'',
         [[39292, 22270], [21344, 27604], [27604, 20363], [26500, 25104], ascii ''pie'']),
      (ascii ''scatter'',
         [[25955, 28857], [30456, 20851, 24615], ascii ''scatter'', [20851, 31995]]),
      (ascii ''histogram'',
         [[30452, 26041, 22270], [20998, 24067], [39057, 29575], ascii ''histogram'']),
      (ascii ''heatmap'',
         [[28909, 21147, 22270], ascii ''heatmap'', [30456, 20851, 30697, 38453]]),
      (ascii ''line'',
         [[36235, 21183], [21464, 21270], [36208, 21183], ascii ''trend'', [25240, 32447],
          ascii ''line'']),
      (ascii ''bar'',
         [[26609, 29366], [23545, 27604], [25490, 21517], ascii ''bar'', ascii ''top''])]"

text \<open>The two nested loops: the first chart type one of whose keywords occurs in \<open>q\<close>.\<close>

fun first_keyword_type :: "(pystr \<times> pystr list) list \<Rightarrow> pystr \<Rightarrow> pystr option" where
  "first_keyword_type [] q = None"
| "first_keyword_type ((ctype, keywords) # rest) q =
     (if list_ex (\<lambda>kw. contains kw q) keywords then Some ctype
      else first_keyword_type rest q)"

text \<open>
  \<^verbatim>\<open>_infer_chart_type(df, question)\<close>.  \<open>lower\<close> is \<^verbatim>\<open>str.lower\<close>, Unicode's
  lower-casing, which the source takes from the language: the function is modelled for
  every such mapping.  \<^verbatim>\<open>df.columns[0]\<close> of a frame without columns raises
  \<^verbatim>\<open>IndexError\<close>.
\<close>

definition infer_chart_type ::
  "(pystr \<Rightarrow> pystr) \<Rightarrow> dataframe \<Rightarrow> pystr \<Rightarrow> py_exception + pystr" where
  "infer_chart_type lower df question =
     (let q = lower question
      in case first_keyword_type keyword_map q of
           Some ctype \<Rightarrow> Inr ctype
         | None \<Rightarrow>
             (case columns df of
                [] \<Rightarrow> Inl (PyException (ascii ''IndexError'')
                            (ascii ''index 0 is out of bounds for axis 0 with size 0''))
              | (x_col, ty) # _ \<Rightarrow>
                  if ty = Datetime then Inr (ascii ''line'')
                  else if nrows df \<le> 15 then Inr (ascii ''bar'')
                  else Inr (ascii ''bar'')))"

text \<open>A question, lower-cased, in which no keyword of \<^verbatim>\<open>keyword_map\<close> occurs.\<close>

definition no_chart_keyword :: "pystr \<Rightarrow> bool" where
  "no_chart_keyword q = list_all (\<lambda>(ctype, keywords). list_all (\<lambda>kw. \<not> contains kw q) keywords) keyword_map"



section \<open>tools/data\_visualization.py and tools/statistical\_analysis.py\<close>

text \<open>
  The keyword arguments the two tools read, as their \<^verbatim>\<open>parameters_description\<close>
  declares them: strings, each optional.
\<close>

record tool_kwargs =
  question :: "pystr option"
  chart_type :: "pystr option"
  sql :: "pystr option"
  title :: "pystr option"
  analysis_type :: "pystr option"

text \<open>
  The prompts the tools send: the f-string is a function of the schema, the question and,
  for the analysis, the analysis type.
\<close>

datatype prompt = VizSqlPrompt pystr pystr | AnalysisSqlPrompt pystr pystr pystr

text \<open>
  What the tools use and the repository does not define: the database
  (\<^verbatim>\<open>get_table_info\<close>, \<^verbatim>\<open>execute_sql_df\<close>), the language model
  (\<^verbatim>\<open>llm.chat\<close>), Python's \<^verbatim>\<open>str.upper\<close> and \<^verbatim>\<open>str.lower\<close>, the dtype a
  column has after the \<^verbatim>\<open>pd.to_numeric\<close> / \<^verbatim>\<open>pd.to_datetime\<close> attempts, the
  chart file written by matplotlib (\<^verbatim>\<open>_create_chart\<close>, which catches every exception
  and returns \<^verbatim>\<open>None\<close>), the pandas summary, and the five pandas analyses.
\<close>

record 'w tool_env =
  get_table_info :: "'w \<Rightarrow> (py_exception + pystr) \<times> 'w"
  chat :: "prompt \<Rightarrow> 'w \<Rightarrow> (py_exception + pystr) \<times> 'w"
  execute_sql_df :: "pystr \<Rightarrow> 'w \<Rightarrow> (py_exception + dataframe) \<times> 'w"
  str_upper :: "pystr \<Rightarrow> pystr"
  str_lower :: "pystr \<Rightarrow> pystr"
  coerce_dtype :: "'w \<Rightarrow> pystr \<Rightarrow> pystr \<Rightarrow> dtype \<Rightarrow> dtype"
  create_chart :: "dataframe \<Rightarrow> pystr \<Rightarrow> pystr \<Rightarrow> 'w \<Rightarrow> pystr option \<times> 'w"
  summarise_data :: "dataframe \<Rightarrow> 'w \<Rightarrow> py_exception + pystr"
  descriptive :: "dataframe \<Rightarrow> pystr \<Rightarrow> 'w \<Rightarrow> (py_exception + step_result) \<times> 'w"
  correlation :: "dataframe \<Rightarrow> pystr \<Rightarrow> 'w \<Rightarrow> (py_exception + step_result) \<times> 'w"
  trend :: "dataframe \<Rightarrow> pystr \<Rightarrow> 'w \<Rightarrow> (py_exception + step_result) \<times> 'w"
  top_n :: "dataframe \<Rightarrow> pystr \<Rightarrow> 'w \<Rightarrow> (py_exception + step_result) \<times> 'w"
  comparison :: "dataframe \<Rightarrow> pystr \<Rightarrow> 'w \<Rightarrow> (py_exception + step_result) \<times> 'w"

text \<open>
  \<^verbatim>\<open>_extract_sql\<close>, the same static method in both tools.  The index of
  \<^verbatim>\<open>SELECT\<close> is found in \<^verbatim>\<open>text.upper()\<close> and used in \<^verbatim>\<open>text\<close>.
\<close>

definition unfence_sql :: "pystr \<Rightarrow> pystr" where
  "unfence_sql text0 =
     (let text = py_strip text0
      in if contains (ascii ''```sql'') text
         then py_strip (before_first (ascii ''```'') (after_first (ascii ''```sql'') text))
         else if contains (ascii ''```'') text
         then py_strip (before_first (ascii ''```'') (after_first (ascii ''```'') text))
         else text)"

definition extract_sql :: "(pystr \<Rightarrow> pystr) \<Rightarrow> pystr \<Rightarrow> pystr option" where
  "extract_sql upper text0 =
     (let text = unfence_sql text0
      in if contains (ascii ''SELECT'') (upper text)
         then (let idx = length (before_first (ascii ''SELECT'') (upper text))
               in Some (py_strip (rstrip_semicolons (drop idx text))))
         else None)"

definition generate_viz_sql ::
  "'w tool_env \<Rightarrow> pystr \<Rightarrow> 'w \<Rightarrow> (py_exception + pystr option) \<times> 'w" where
  "generate_viz_sql env q w =
     (case get_table_info env w of
        (Inl e, w1) \<Rightarrow> (Inl e, w1)
      | (Inr schema, w1) \<Rightarrow>
          (case chat env (VizSqlPrompt schema q) w1 of
             (Inl e, w2) \<Rightarrow> (Inl e, w2)
           | (Inr reply, w2) \<Rightarrow> (Inr (extract_sql (str_upper env) reply), w2)))"

text \<open>
  \<^verbatim>\<open>_execute_sql_to_df\<close>: the query, then the per-column conversion attempts, which
  assign to existing columns only; any exception gives \<^verbatim>\<open>None\<close>.
\<close>

definition execute_sql_to_df :: "'w tool_env \<Rightarrow> pystr \<Rightarrow> 'w \<Rightarrow> dataframe option \<times> 'w" where
  "execute_sql_to_df env s w =
     (case execute_sql_df env s w of
        (Inl e, w1) \<Rightarrow> (None, w1)
      | (Inr df, w1) \<Rightarrow>
          (Some (df\<lparr>columns := map (\<lambda>(label, ty). (label, coerce_dtype env w1 s label ty))
                                   (columns df)\<rparr>), w1))"

definition chart_type_cn :: "pystr \<Rightarrow> pystr" where
  "chart_type_cn ct =
     (if ct = ascii ''line'' then [25240, 32447, 22270]
      else if ct = ascii ''bar'' then [26609, 29366, 22270]
      else if ct = ascii ''pie'' then [39292, 22270]
      else if ct = ascii ''scatter'' then [25955, 28857, 22270]
      else if ct = ascii ''histogram'' then [30452, 26041, 22270]
      else if ct = ascii ''heatmap'' then [28909, 21147, 22270]
      else [22270, 34920])"

definition generate_title :: "pystr \<Rightarrow> pystr \<Rightarrow> pystr" where
  "generate_title q ct = (if q \<noteq> [] then take 50 q else [25968, 25454] @ chart_type_cn ct)"

definition failure_with_sql :: "pystr \<Rightarrow> pystr \<Rightarrow> step_result" where
  "failure_with_sql msg s = (failure msg)\<lparr>data := Some (JObject [(ascii ''sql'', JStr s)])\<rparr>"

text \<open>\<^verbatim>\<open>DataVisualizationTool.execute\<close> from the check of the frame on.\<close>

definition viz_render ::
  "'w tool_env \<Rightarrow> tool_kwargs \<Rightarrow> pystr \<Rightarrow> pystr \<Rightarrow> dataframe option \<Rightarrow> 'w
     \<Rightarrow> (py_exception + step_result) \<times> 'w" where
  "viz_render env kw q s dfo w =
     (case dfo of
        None \<Rightarrow>
          (Inr (failure_with_sql
                  [26597, 35810, 26410, 36820, 22238, 25968, 25454, 65292, 26080, 27861, 29983,
                   25104, 21487, 35270, 21270] s), w)
      | Some df \<Rightarrow>
          if df_empty df
          then (Inr (failure_with_sql
                       [26597, 35810, 26410, 36820, 22238, 25968, 25454, 65292, 26080, 27861,
                        29983, 25104, 21487, 35270, 21270] s), w)
          else
            (case (if text_of (chart_type kw) \<noteq> [] then Inr (text_of (chart_type kw))
                   else infer_chart_type (str_lower env) df q) of
               Inl e \<Rightarrow> (Inl e, w)
             | Inr ct \<Rightarrow>
                 (let ttl = (if text_of (title kw) \<noteq> [] then text_of (title kw)
                             else generate_title q ct)
                  in case create_chart env df ct ttl w of
                       (img, w1) \<Rightarrow>
                         if text_of img = []
                         then (Inr (failure_with_sql [22270, 34920, 29983, 25104, 22833, 36133] s),
                               w1)
                         else
                           (case summarise_data env df w1 of
                              Inl e \<Rightarrow> (Inl e, w1)
                            | Inr summary \<Rightarrow>
                                (Inr \<lparr>success = True,
                                      result = [24050, 29983, 25104] @ chart_type_cn ct
                                                 @ [12290, 10] @ summary,
                                      data = Some (JObject
                                        [(ascii ''sql'', JStr s), (ascii ''chart_type'', JStr ct),
                                         (ascii ''rows'', JInt (int (nrows df)))]),
                                      image_path = img, dataframe = Some df,
                                      tool = None, reason = None\<rparr>, w1)))))"

definition viz_execute ::
  "'w tool_env \<Rightarrow> tool_kwargs \<Rightarrow> 'w \<Rightarrow> (py_exception + step_result) \<times> 'w" where
  "viz_execute env kw w =
     (let q = text_of (question kw)
      in if text_of (sql kw) \<noteq> []
         then (case execute_sql_to_df env (text_of (sql kw)) w of
                 (dfo, w1) \<Rightarrow> viz_render env kw q (text_of (sql kw)) dfo w1)
         else if q \<noteq> []
         then (case generate_viz_sql env q w of
                 (Inl e, w1) \<Rightarrow> (Inl e, w1)
               | (Inr g, w1) \<Rightarrow>
                   if text_of g = []
                   then (Inr (failure [26080, 27861, 20026, 35813, 38382, 39064, 29983, 25104,
                                       21487, 35270, 21270, 83, 81, 76]), w1)
                   else (case execute_sql_to_df env (text_of g) w1 of
                           (dfo, w2) \<Rightarrow> viz_render env kw q (text_of g) dfo w2))
         else (Inr (failure [35831, 25552, 20379, 21487, 35270, 21270, 25551, 36848, 25110,
                             83, 81, 76]), w))"

definition generate_analysis_sql ::
  "'w tool_env \<Rightarrow> pystr \<Rightarrow> pystr \<Rightarrow> 'w \<Rightarrow> (py_exception + pystr option) \<times> 'w" where
  "generate_analysis_sql env q atype w =
     (case get_table_info env w of
        (Inl e, w1) \<Rightarrow> (Inl e, w1)
      | (Inr schema, w1) \<Rightarrow>
          (case chat env (AnalysisSqlPrompt schema q atype) w1 of
             (Inl e, w2) \<Rightarrow> (Inl e, w2)
           | (Inr reply, w2) \<Rightarrow> (Inr (extract_sql (str_upper env) reply), w2)))"

definition safe_query :: "'w tool_env \<Rightarrow> pystr \<Rightarrow> 'w \<Rightarrow> dataframe option \<times> 'w" where
  "safe_query env s w =
     (case execute_sql_df env s w of (Inl e, w1) \<Rightarrow> (None, w1) | (Inr df, w1) \<Rightarrow> (Some df, w1))"

text \<open>\<^verbatim>\<open>StatisticalAnalysisTool.execute\<close> from the check of the frame on.\<close>

definition stat_analyse ::
  "'w tool_env \<Rightarrow> pystr \<Rightarrow> pystr \<Rightarrow> dataframe \<Rightarrow> 'w \<Rightarrow> (py_exception + step_result) \<times> 'w" where
  "stat_analyse env atype q df w =
     (if df_empty df then (Inr (failure [26597, 35810, 32467, 26524, 20026, 31354]), w)
      else if atype = ascii ''descriptive'' then descriptive env df q w
      else if atype = ascii ''correlation'' then correlation env df q w
      else if atype = ascii ''trend'' then trend env df q w
      else if atype = ascii ''top_n'' then top_n env df q w
      else if atype = ascii ''comparison'' then comparison env df q w
      else descriptive env df q w)"

definition stat_execute ::
  "'w tool_env \<Rightarrow> tool_kwargs \<Rightarrow> 'w \<Rightarrow> (py_exception + step_result) \<times> 'w" where
  "stat_execute env kw w =
     (let q = text_of (question kw);
          atype = (case analysis_type kw of None \<Rightarrow> ascii ''descriptive'' | Some a \<Rightarrow> a)
      in if text_of (sql kw) \<noteq> []
         then (case execute_sql_df env (text_of (sql kw)) w of
                 (Inl e, w1) \<Rightarrow> (Inl e, w1)
               | (Inr df, w1) \<Rightarrow> stat_analyse env atype q df w1)
         else if q \<noteq> []
         then (case generate_analysis_sql env q atype w of
                 (Inl e, w1) \<Rightarrow> (Inl e, w1)
               | (Inr g, w1) \<Rightarrow>
                   if text_of g = []
                   then (Inr (failure [26080, 27861, 29983, 25104, 20998, 26512, 83, 81, 76]), w1)
                   else (case safe_query env (text_of g) w1 of
                           (None, w2) \<Rightarrow>
                             (Inr (failure ([83, 81, 76, 25191, 34892, 22833, 36133, 58, 32]
                                            @ text_of g)), w2)
                         | (Some df, w2) \<Rightarrow> stat_analyse env atype q df w2))
         else (Inr (failure [35831, 25552, 20379, 20998, 26512, 38656, 27714]), w))"


text \<open>
  The outcomes and the situations of claim C8.  An outcome fails without artifact when
  \<^verbatim>\<open>execute\<close> returns a dictionary with \<^verbatim>\<open>success\<close> false and no
  \<^verbatim>\<open>image_path\<close>.  The language-model step yields no query when no SQL was passed,
  a question was, and \<^verbatim>\<open>_generate_viz_sql\<close> (\<^verbatim>\<open>_generate_analysis_sql\<close>) returns
  \<^verbatim>\<open>None\<close> or the empty string.  The query returns no rows when the query
  \<^verbatim>\<open>execute\<close> runs, the one passed or else the one generated, gives a frame of
  zero rows.
\<close>

definition fails_without_artifact :: "(py_exception + step_result) \<times> 'w \<Rightarrow> bool" where
  "fails_without_artifact out =
     (case fst out of Inl e \<Rightarrow> False | Inr r \<Rightarrow> \<not> success r \<and> image_path r = None)"

definition viz_no_sql :: "'w tool_env \<Rightarrow> tool_kwargs \<Rightarrow> 'w \<Rightarrow> bool" where
  "viz_no_sql env kw w =
     (text_of (sql kw) = [] \<and> text_of (question kw) \<noteq> [] \<and>
      (case generate_viz_sql env (text_of (question kw)) w of
         (Inl e, w1) \<Rightarrow> False
       | (Inr g, w1) \<Rightarrow> text_of g = []))"

definition no_rows :: "'w tool_env \<Rightarrow> pystr \<Rightarrow> 'w \<Rightarrow> bool" where
  "no_rows env s w =
     (case execute_sql_df env s w of (Inl e, w1) \<Rightarrow> False | (Inr df, w1) \<Rightarrow> nrows df = 0)"

definition viz_zero_rows :: "'w tool_env \<Rightarrow> tool_kwargs \<Rightarrow> 'w \<Rightarrow> bool" where
  "viz_zero_rows env kw w =
     (if text_of (sql kw) \<noteq> [] then no_rows env (text_of (sql kw)) w
      else text_of (question kw) \<noteq> [] \<and>
           (case generate_viz_sql env (text_of (question kw)) w of
              (Inl e, w1) \<Rightarrow> False
            | (Inr g, w1) \<Rightarrow> text_of g \<noteq> [] \<and> no_rows env (text_of g) w1))"

definition stat_type :: "tool_kwargs \<Rightarrow> pystr" where
  "stat_type kw = (case analysis_type kw of None \<Rightarrow> ascii ''descriptive'' | Some a \<Rightarrow> a)"

definition stat_no_sql :: "'w tool_env \<Rightarrow> tool_kwargs \<Rightarrow> 'w \<Rightarrow> bool" where
  "stat_no_sql env kw w =
     (text_of (sql kw) = [] \<and> text_of (question kw) \<noteq> [] \<and>
      (case generate_analysis_sql env (text_of (question kw)) (stat_type kw) w of
         (Inl e, w1) \<Rightarrow> False
       | (Inr g, w1) \<Rightarrow> text_of g = []))"

definition stat_zero_rows :: "'w tool_env \<Rightarrow> tool_kwargs \<Rightarrow> 'w \<Rightarrow> bool" where
  "stat_zero_rows env kw w =
     (if text_of (sql kw) \<noteq> [] then no_rows env (text_of (sql kw)) w
      else text_of (question kw) \<noteq> [] \<and>
           (case generate_analysis_sql env (text_of (question kw)) (stat_type kw) w of
              (Inl e, w1) \<Rightarrow> False
            | (Inr g, w1) \<Rightarrow> text_of g \<noteq> [] \<and> no_rows env (text_of g) w1))"


section \<open>core/llm\_client.py: the plan parser\<close>

subsection \<open>The decoder \<^verbatim>\<open>json.loads\<close>\<close>

text \<open>
  \<^verbatim>\<open>_parse_tool_plan\<close> calls \<^verbatim>\<open>json.loads\<close> of Python's standard library,
  which the repository uses and does not define.  It is modelled here after the
  library's decoder with its default options, as a scanner of tokens followed by a
  parser of the token list; \<open>None\<close> stands for \<^verbatim>\<open>json.JSONDecodeError\<close>.

    \<^item> Whitespace between tokens is space, tab, line feed and carriage return.
    \<^item> A string runs to the next unescaped quotation mark; a character below U+0020
      is refused (\<^verbatim>\<open>strict\<close>); the escapes are those of JSON, and a
      \<^verbatim>\<open>\u\<close> escape of a high surrogate followed by one of a low surrogate is
      one character.
    \<^item> A number without fraction and exponent is an integer; with one of them it is
      a float, kept as its text.  \<^verbatim>\<open>NaN\<close>, \<^verbatim>\<open>Infinity\<close> and
      \<^verbatim>\<open>-Infinity\<close> are accepted.
    \<^item> An object is a dictionary: a repeated key keeps its first position and its
      last value.

  The limits of the interpreter are not modelled: the \<^verbatim>\<open>RecursionError\<close> of a
  text nested deeper than the recursion limit, and the \<^verbatim>\<open>ValueError\<close> of an
  integer literal longer than the limit on the digits of an integer.
\<close>

definition is_json_ws :: "nat \<Rightarrow> bool" where
  "is_json_ws c = (c = 32 \<or> c = 9 \<or> c = 10 \<or> c = 13)"

definition is_digit :: "nat \<Rightarrow> bool" where
  "is_digit c = (48 \<le> c \<and> c \<le> 57)"

text \<open>The body of a string, after the opening quotation mark.\<close>

definition hex_value :: "nat \<Rightarrow> nat option" where
  "hex_value c =
     (if 48 \<le> c \<and> c \<le> 57 then Some (c - 48)
      else if 97 \<le> c \<and> c \<le> 102 then Some (c - 87)
      else if 65 \<le> c \<and> c \<le> 70 then Some (c - 55)
      else None)"

definition hex4 :: "nat \<Rightarrow> nat \<Rightarrow> nat \<Rightarrow> nat \<Rightarrow> nat option" where
  "hex4 a b c d =
     (case (hex_value a, hex_value b, hex_value c, hex_value d) of
        (Some x, Some y, Some z, Some u) \<Rightarrow> Some (((x * 16 + y) * 16 + z) * 16 + u)
      | _ \<Rightarrow> None)"

definition escape_char :: "nat \<Rightarrow> nat option" where
  "escape_char e =
     (if e = 34 then Some 34 else if e = 92 then Some 92 else if e = 47 then Some 47
      else if e = 98 then Some 8 else if e = 102 then Some 12 else if e = 110 then Some 10
      else if e = 114 then Some 13 else if e = 116 then Some 9 else None)"

definition push_char :: "nat \<Rightarrow> (pystr \<times> pystr) option \<Rightarrow> (pystr \<times> pystr) option" where
  "push_char c r = (case r of None \<Rightarrow> None | Some (str, rest) \<Rightarrow> Some (c # str, rest))"

definition hex4_at :: "pystr \<Rightarrow> nat option" where
  "hex4_at s = (if length s < 4 then None else hex4 (s ! 0) (s ! 1) (s ! 2) (s ! 3))"

definition scan_low_surrogate :: "nat \<Rightarrow> pystr \<Rightarrow> (nat \<times> pystr) option" where
  "scan_low_surrogate uni s =
     (if take 2 s = [92, 117] then
        (case hex4_at (drop 2 s) of
           None \<Rightarrow> None
         | Some uni2 \<Rightarrow>
             if 56320 \<le> uni2 \<and> uni2 \<le> 57343
             then Some (65536 + (uni - 55296) * 1024 + (uni2 - 56320), drop 6 s)
             else Some (uni, s))
      else Some (uni, s))"

definition scan_escape :: "pystr \<Rightarrow> (nat \<times> pystr) option" where
  "scan_escape s =
     (case s of
        [] \<Rightarrow> None
      | e # r \<Rightarrow>
          if e = 117 then
            (case hex4_at r of
               None \<Rightarrow> None
             | Some uni \<Rightarrow>
                 if 55296 \<le> uni \<and> uni \<le> 56319 then scan_low_surrogate uni (drop 4 r)
                 else Some (uni, drop 4 r))
          else (case escape_char e of None \<Rightarrow> None | Some ch \<Rightarrow> Some (ch, r)))"

lemma scan_escape_shorter: "scan_escape s = Some (ch, r) \<Longrightarrow> length r < length s"
  by (auto simp: scan_escape_def scan_low_surrogate_def hex4_at_def
      split: list.splits if_splits option.splits)

function scan_string :: "pystr \<Rightarrow> (pystr \<times> pystr) option" where
  "scan_string s =
     (case s of
        [] \<Rightarrow> None
      | c # cs \<Rightarrow>
          if c = 34 then Some ([], cs)
          else if c = 92 then
            (case scan_escape cs of
               None \<Rightarrow> None
             | Some (ch, r) \<Rightarrow> push_char ch (scan_string r))
          else if c < 32 then None
          else push_char c (scan_string cs))"
  by pat_completeness auto
termination
  by (relation "measure length") (auto dest: scan_escape_shorter)

declare scan_string.simps [simp del]

lemma scan_string_Nil [simp]: "scan_string [] = None"
  by (simp add: scan_string.simps)

lemma scan_string_Cons [simp]:
  "scan_string (c # cs) =
     (if c = 34 then Some ([], cs)
      else if c = 92 then
        (case scan_escape cs of
           None \<Rightarrow> None
         | Some (ch, r) \<Rightarrow> push_char ch (scan_string r))
      else if c < 32 then None
      else push_char c (scan_string cs))"
  by (simp add: scan_string.simps [of "c # cs"])

text \<open>
  A number, by the pattern
  \<^verbatim>\<open>(-?(?:0|[1-9]\d*))(\.\d+)?([eE][-+]?\d+)?\<close> of the library.
\<close>

definition digits_value :: "pystr \<Rightarrow> nat" where
  "digits_value ds = foldl (\<lambda>a d. a * 10 + (d - 48)) 0 ds"

definition scan_exponent :: "pystr \<Rightarrow> pystr \<times> pystr" where
  "scan_exponent s =
     (case s of
        [] \<Rightarrow> ([], s)
      | e # r \<Rightarrow>
          if e = 101 \<or> e = 69 then
            (let sg = (case r of [] \<Rightarrow> [] | x # r' \<Rightarrow> if x = 43 \<or> x = 45 then [x] else []);
                 r1 = drop (length sg) r
             in if takeWhile is_digit r1 \<noteq> []
                then (e # sg @ takeWhile is_digit r1, dropWhile is_digit r1)
                else ([], s))
          else ([], s))"

definition scan_fraction :: "pystr \<Rightarrow> pystr \<times> pystr" where
  "scan_fraction s =
     (case s of
        [] \<Rightarrow> ([], s)
      | p # r \<Rightarrow>
          if p = 46 \<and> takeWhile is_digit r \<noteq> []
          then (p # takeWhile is_digit r, dropWhile is_digit r)
          else ([], s))"

definition scan_integer :: "pystr \<Rightarrow> (pystr \<times> pystr) option" where
  "scan_integer s =
     (case s of
        [] \<Rightarrow> None
      | d # r \<Rightarrow>
          if d = 48 then Some ([d], r)
          else if is_digit d then Some (takeWhile is_digit s, dropWhile is_digit s)
          else None)"

definition scan_sign :: "pystr \<Rightarrow> pystr" where
  "scan_sign s = (case s of [] \<Rightarrow> [] | x # r \<Rightarrow> if x = 45 then [x] else [])"

definition scan_number :: "pystr \<Rightarrow> (json \<times> pystr) option" where
  "scan_number s =
     (let sign = scan_sign s
      in case scan_integer (drop (length sign) s) of
           None \<Rightarrow> None
         | Some (ip, r1) \<Rightarrow>
             (case scan_fraction r1 of
                (frac, r2) \<Rightarrow>
                  (case scan_exponent r2 of
                     (ex, r3) \<Rightarrow>
                       if frac = [] \<and> ex = []
                       then Some (JInt (if sign = [] then int (digits_value ip)
                                        else - int (digits_value ip)), r3)
                       else Some (JFloat (sign @ ip @ frac @ ex), r3))))"

datatype token = TLBrace | TRBrace | TLBracket | TRBracket | TComma | TColon | TValue json

definition scan_literal :: "pystr \<Rightarrow> (json \<times> pystr) option" where
  "scan_literal s =
     (if prefix (ascii ''null'') s then Some (JNull, drop 4 s)
      else if prefix (ascii ''true'') s then Some (JBool True, drop 4 s)
      else if prefix (ascii ''false'') s then Some (JBool False, drop 5 s)
      else (case scan_number s of
              Some r \<Rightarrow> Some r
            | None \<Rightarrow>
                if prefix (ascii ''NaN'') s then Some (JFloat (ascii ''NaN''), drop 3 s)
                else if prefix (ascii ''Infinity'') s
                then Some (JFloat (ascii ''Infinity''), drop 8 s)
                else if prefix (ascii ''-Infinity'') s
                then Some (JFloat (ascii ''-Infinity''), drop 9 s)
                else None))"

definition next_token :: "pystr \<Rightarrow> (token \<times> pystr) option" where
  "next_token s =
     (case s of
        [] \<Rightarrow> None
      | c # cs \<Rightarrow>
          if c = 123 then Some (TLBrace, cs)
          else if c = 125 then Some (TRBrace, cs)
          else if c = 91 then Some (TLBracket, cs)
          else if c = 93 then Some (TRBracket, cs)
          else if c = 44 then Some (TComma, cs)
          else if c = 58 then Some (TColon, cs)
          else if c = 34 then
            (case scan_string cs of
               None \<Rightarrow> None
             | Some (str, rest) \<Rightarrow> Some (TValue (JStr str), rest))
          else (case scan_literal s of
                  None \<Rightarrow> None
                | Some (v, rest) \<Rightarrow> Some (TValue v, rest)))"

lemma scan_string_shorter: "scan_string s = Some (str, rest) \<Longrightarrow> length rest < length s"
proof (induction s arbitrary: str rest rule: scan_string.induct)
  case (1 s)
  show ?case
  proof (cases s)
    case Nil
    with "1.prems" show ?thesis by simp
  next
    case (Cons c cs)
    show ?thesis
    proof (cases "c = 34")
      case True
      with "1.prems" Cons show ?thesis by simp
    next
      case n34: False
      show ?thesis
      proof (cases "c = 92")
        case True
        with "1.prems" Cons n34 obtain ch r str' where
          e: "scan_escape cs = Some (ch, r)" and r: "scan_string r = Some (str', rest)"
          by (auto simp: push_char_def split: option.splits)
        from "1.IH"(1) [OF Cons n34 True e refl r] scan_escape_shorter [OF e] Cons
        show ?thesis by simp
      next
        case False
        with "1.prems" Cons n34 obtain str' where
          r: "scan_string cs = Some (str', rest)" and "\<not> c < 32"
          by (auto simp: push_char_def split: option.splits if_splits)
        from "1.IH"(2) [OF Cons n34 False this(2) r] Cons show ?thesis by simp
      qed
    qed
  qed
qed

lemma scan_number_shorter: "scan_number s = Some (v, rest) \<Longrightarrow> length rest < length s"
proof -
  have le: "length (dropWhile is_digit xs) \<le> length xs" for xs :: pystr
    by (rule length_dropWhile_le)
  have f: "length (snd (scan_fraction xs)) \<le> length xs" for xs
    using le [of "tl xs"] by (auto simp: scan_fraction_def split: list.splits)
  have e: "length (snd (scan_exponent xs)) \<le> length xs" for xs
  proof (cases xs)
    case Nil
    then show ?thesis by (simp add: scan_exponent_def)
  next
    case (Cons x r)
    have "length (dropWhile is_digit (drop n r)) \<le> Suc (length r)" for n
      using le [of "drop n r"] by simp
    then show ?thesis using Cons by (simp add: scan_exponent_def Let_def)
  qed
  have i: "scan_integer xs = Some (ip, r) \<Longrightarrow> length r < length xs" for xs ip r
    using le [of "tl xs"]
    by (auto simp: scan_integer_def split: list.splits if_splits)
  assume n: "scan_number s = Some (v, rest)"
  then obtain ip r1 where a: "scan_integer (drop (length (scan_sign s)) s) = Some (ip, r1)"
    by (cases "scan_integer (drop (length (scan_sign s)) s)") (auto simp: scan_number_def Let_def)
  with n have b: "rest = snd (scan_exponent (snd (scan_fraction r1)))"
    by (auto simp: scan_number_def Let_def split: prod.splits if_splits)
  from i [OF a] have "length r1 < length s" by simp
  with f [of r1] e [of "snd (scan_fraction r1)"] b show ?thesis by simp
qed

lemma next_token_shorter: "next_token s = Some (tok, rest) \<Longrightarrow> length rest < length s"
  by (auto simp: next_token_def scan_literal_def
      split: list.splits if_splits option.splits
      dest: scan_string_shorter scan_number_shorter)

function lex_json :: "pystr \<Rightarrow> token list option" where
  "lex_json s =
     (case dropWhile is_json_ws s of
        [] \<Rightarrow> Some []
      | c # cs \<Rightarrow>
          (case next_token (c # cs) of
             None \<Rightarrow> None
           | Some (tok, rest) \<Rightarrow>
               (case lex_json rest of None \<Rightarrow> None | Some ts \<Rightarrow> Some (tok # ts))))"
  by pat_completeness auto
termination
proof (relation "measure length")
  show "wf (measure length)" by simp
next
  fix s c cs x tok rest
  assume "dropWhile is_json_ws s = c # cs" and "next_token (c # cs) = Some x" and "(tok, rest) = x"
  then have "length rest < length (dropWhile is_json_ws s)"
    using next_token_shorter [of "c # cs" tok rest] by simp
  also have "\<dots> \<le> length s" by (rule length_dropWhile_le)
  finally show "(rest, s) \<in> measure length" by simp
qed

declare lex_json.simps [simp del]

text \<open>
  The parser.  The tests \<open>length r' < length ts\<close> ahead of the two recursive calls
  for the rest of a list always hold, since a value consumes at least one token; they
  are there for the proof of termination.
\<close>

definition dict_of :: "(pystr \<times> json) list \<Rightarrow> (pystr \<times> json) list" where
  "dict_of ps = foldl (\<lambda>d (k, v). dict_set d k v) [] ps"

function parse_value :: "token list \<Rightarrow> (json \<times> token list) option"
  and parse_elements :: "token list \<Rightarrow> (json list \<times> token list) option"
  and parse_members :: "token list \<Rightarrow> ((pystr \<times> json) list \<times> token list) option" where
  "parse_value ts =
     (case ts of
        TValue v # r \<Rightarrow> Some (v, r)
      | TLBracket # r \<Rightarrow>
          (case r of
             TRBracket # r' \<Rightarrow> Some (JArray [], r')
           | _ \<Rightarrow> (case parse_elements r of
                     None \<Rightarrow> None
                   | Some (vs, r') \<Rightarrow> Some (JArray vs, r')))
      | TLBrace # r \<Rightarrow>
          (case r of
             TRBrace # r' \<Rightarrow> Some (JObject [], r')
           | _ \<Rightarrow> (case parse_members r of
                     None \<Rightarrow> None
                   | Some (ps, r') \<Rightarrow> Some (JObject (dict_of ps), r')))
      | _ \<Rightarrow> None)"
| "parse_elements ts =
     (case parse_value ts of
        None \<Rightarrow> None
      | Some (v, r) \<Rightarrow>
          (case r of
             TRBracket # r' \<Rightarrow> Some ([v], r')
           | TComma # r' \<Rightarrow>
               if length r' < length ts
               then (case parse_elements r' of
                       None \<Rightarrow> None
                     | Some (vs, r'') \<Rightarrow> Some (v # vs, r''))
               else None
           | _ \<Rightarrow> None))"
| "parse_members ts =
     (case ts of
        TValue (JStr k) # TColon # r \<Rightarrow>
          (case parse_value r of
             None \<Rightarrow> None
           | Some (v, r1) \<Rightarrow>
               (case r1 of
                  TRBrace # r2 \<Rightarrow> Some ([(k, v)], r2)
                | TComma # r2 \<Rightarrow>
                    if length r2 < length ts
                    then (case parse_members r2 of
                            None \<Rightarrow> None
                          | Some (ps, r3) \<Rightarrow> Some ((k, v) # ps, r3))
                    else None
                | _ \<Rightarrow> None))
      | _ \<Rightarrow> None)"
  by pat_completeness auto
termination
  by (relation "measure (\<lambda>x. case x of
          Inl ts \<Rightarrow> 2 * length ts
        | Inr (Inl ts) \<Rightarrow> 2 * length ts + 1
        | Inr (Inr ts) \<Rightarrow> 2 * length ts + 1)") auto

declare parse_value.simps [simp del] parse_elements.simps [simp del] parse_members.simps [simp del]


subsection \<open>\<^verbatim>\<open>_parse_tool_plan\<close>\<close>







text \<open>
  Notions for the proofs about the decoder: a text of JSON whitespace only, the sign
  of an exponent, what the three functions of the parser consume, and a token that is
  not a composite value.
\<close>

definition ws_only :: "pystr \<Rightarrow> bool" where
  "ws_only w = list_all is_json_ws w"







section \<open>Fixtures for the concrete instances\<close>

text \<open>
  A world that counts the tool runs, two tools, a language model that answers with a
  fixed plan and fixed texts, and an agent built from them.
\<close>

definition demo_clock :: clock where
  "demo_clock =
     \<lparr>session_stamp = ascii ''20260101_000000'', start_stamp = ascii ''t0'',
      message_stamp = ascii ''t1''\<rparr>"

definition demo_tool :: "pystr \<Rightarrow> nat base_tool" where
  "demo_tool n =
     \<lparr>name = n, description = [], parameters_description = [],
      execute = (\<lambda>kw w.
        (Inr \<lparr>success = True, result = ascii ''ok'', data = None, image_path = None,
              dataframe = None, tool = None, reason = None\<rparr>, Suc w))\<rparr>"

definition failing_tool :: "pystr \<Rightarrow> nat base_tool" where
  "failing_tool n =
     \<lparr>name = n, description = [], parameters_description = [],
      execute = (\<lambda>kw w. (Inl (PyException (ascii ''ValueError'') (ascii ''boom'')), Suc w))\<rparr>"

definition demo_registry :: "nat tool_registry" where
  "demo_registry =
     register (failing_tool (ascii ''sql_query''))
       (register (demo_tool (ascii ''report_generator''))
         (register (demo_tool (ascii ''data_inspector'')) []))"

definition demo_llm :: "plan_step list \<Rightarrow> nat llm_client" where
  "demo_llm plan =
     \<lparr>plan_tools = (\<lambda>q ds h sch w. (Inr plan, w)),
      general_chat = (\<lambda>q w. (Inr (ascii ''hello''), w)),
      summarise_results = (\<lambda>q rs h w. (Inr (ascii ''summary''), w))\<rparr>"

definition demo_agent :: "plan_step list \<Rightarrow> nat agent" where
  "demo_agent plan =
     \<lparr>registry = demo_registry, llm = demo_llm plan, dialogue = init_context 50,
      data_schema = []\<rparr>"

definition demo_step :: "string \<Rightarrow> plan_step" where
  "demo_step n = \<lparr>step_tool = Some (ascii n), step_args = Some [], step_reason = Some (ascii ''r'')\<rparr>"

definition demo_history :: pystr where
  "demo_history =
     get_formatted_history 10
       (add_message demo_clock (ascii ''user'') (ascii ''q'') None (init_context 50))"

definition demo_report_plan :: "plan_step list" where
  "demo_report_plan = [demo_step ''data_inspector'', demo_step ''report_generator'']"

text \<open>
  A report generator that answers with the \<^verbatim>\<open>analysis_results\<close> it was called
  with, in a registry with the inspector, and the state of the loop after the inspector's
  step of \<open>demo_report_plan\<close>.
\<close>

definition echo_tool :: "pystr \<Rightarrow> nat base_tool" where
  "echo_tool n =
     \<lparr>name = n, description = [], parameters_description = [],
      execute = (\<lambda>kw w.
        (Inr \<lparr>success = True,
              result = (case dict_get kw (ascii ''analysis_results'') of
                          Some (JStr t) \<Rightarrow> t | _ \<Rightarrow> ascii ''nothing''),
              data = None, image_path = None,
              dataframe = None, tool = None, reason = None\<rparr>, Suc w))\<rparr>"

definition echo_registry :: "nat tool_registry" where
  "echo_registry =
     register (echo_tool (ascii ''report_generator''))
       (register (demo_tool (ascii ''data_inspector'')) [])"

definition echo_agent :: "plan_step list \<Rightarrow> nat agent" where
  "echo_agent plan =
     \<lparr>registry = echo_registry, llm = demo_llm plan, dialogue = init_context 50,
      data_schema = []\<rparr>"

definition echo_after_inspector :: "nat exec_state" where
  "echo_after_inspector =
     \<lparr>results = [\<lparr>success = True, result = ascii ''ok'', data = None, image_path = None,
                  dataframe = None, tool = Some (ascii ''data_inspector''),
                  reason = Some (ascii ''r'')\<rparr>],
      imgs = [],
      accumulated_context = [10, 10] @ ascii ''### data_inspector (r)'' @ [10] @ ascii ''ok'',
      world = 1,
      trace = [(ascii ''data_inspector'', [(ascii ''context'', JStr demo_history)])]\<rparr>"


text \<open>
  An environment of the two tools in which each sub-step leaves its mark on the world:
  the language model adds 1, the query 10, the chart and each analysis 100.  The model's
  reply holds no \<^verbatim>\<open>SELECT\<close>, and every query returns no rows.
\<close>

definition ascii_upper :: "pystr \<Rightarrow> pystr" where
  "ascii_upper s = map (\<lambda>c. if 97 \<le> c \<and> c \<le> 122 then c - 32 else c) s"

definition ok_result :: step_result where
  "ok_result =
     \<lparr>success = True, result = ascii ''ok'', data = None, image_path = None,
      dataframe = None, tool = None, reason = None\<rparr>"

definition demo_env :: "nat tool_env" where
  "demo_env =
     \<lparr>get_table_info = (\<lambda>w. (Inr (ascii ''orders(id, brand)''), w)),
      chat = (\<lambda>p w. (Inr (ascii ''Sorry, no query.''), w + 1)),
      execute_sql_df = (\<lambda>s w. (Inr \<lparr>columns = [(ascii ''brand'', Object)], nrows = 0\<rparr>, w + 10)),
      str_upper = ascii_upper,
      str_lower = (\<lambda>s. s),
      coerce_dtype = (\<lambda>w s label ty. ty),
      create_chart = (\<lambda>df ct ttl w. (Some (ascii ''viz.png''), w + 100)),
      summarise_data = (\<lambda>df w. Inr []),
      descriptive = (\<lambda>df q w. (Inr ok_result, w + 100)),
      correlation = (\<lambda>df q w. (Inr ok_result, w + 100)),
      trend = (\<lambda>df q w. (Inr ok_result, w + 100)),
      top_n = (\<lambda>df q w. (Inr ok_result, w + 100)),
      comparison = (\<lambda>df q w. (Inr ok_result, w + 100))\<rparr>"

definition ask :: "string \<Rightarrow> tool_kwargs" where
  "ask q = \<lparr>question = Some (ascii q), chart_type = None, sql = None, title = None,
            analysis_type = None\<rparr>"

definition run_sql :: "string \<Rightarrow> tool_kwargs" where
  "run_sql s = \<lparr>question = None, chart_type = None, sql = Some (ascii s), title = None,
              analysis_type = None\<rparr>"








section \<open>Conversation state: the bound on the history\<close>

lemma session_ok_init: "session_ok (init_context n)"
  by (simp add: session_ok_def init_context_def)

lemma session_ok_clear: "session_ok (clear_context ctx)"
  by (simp add: session_ok_def clear_context_def)

lemma add_message_length_le:
  assumes "0 < max_history ctx"
  shows "int (length (messages (add_message clk r c md ctx))) \<le> max_history ctx"
  using assms
  by (auto simp: add_message_def Let_def start_new_session_def py_slice_from_def)

lemma add_message_evicts_oldest:
  assumes "0 < max_history ctx" and "session_ok ctx"
    and "int (length (messages ctx)) = max_history ctx"
  shows "messages (add_message clk r c md ctx) =
           tl (messages ctx) @
           [\<lparr>role = r, content = c, timestamp = message_stamp clk,
             metadata = (case md of None \<Rightarrow> [] | Some d \<Rightarrow> d)\<rparr>]"
proof -
  from assms have ne: "messages ctx \<noteq> []" by auto
  with assms(2) have "\<not> no_session ctx" by (simp add: session_ok_def)
  then show ?thesis
    using assms(1,3) ne
    by (cases "messages ctx") (auto simp: add_message_def Let_def py_slice_from_def)
qed

text \<open>
  C6.  The claim: the state retains at most \<^verbatim>\<open>max_history\<close> messages after every
  \<^verbatim>\<open>add_message\<close>.  With \<^verbatim>\<open>max_history = 0\<close> the guard
  \<^verbatim>\<open>len(self.messages) > self.max_history\<close> fires, but the slice
  \<^verbatim>\<open>self.messages[-0:]\<close> is the whole list: the fresh context with bound 0 holds
  one message after one call.
\<close>

theorem add_message_bound_zero:
  "length (messages (add_message
      \<lparr>session_stamp = ascii ''20260101_000000'', start_stamp = ascii ''t0'',
        message_stamp = ascii ''t1''\<rparr>
      (ascii ''user'') (ascii ''hi'') None (init_context 0))) = 1"
  by (simp add: add_message_def init_context_def no_session_def start_new_session_def
      py_slice_from_def Let_def)


section \<open>The loop over the plan\<close>

lemma dict_get_set: "dict_get (dict_set d k v) k' = (if k' = k then Some v else dict_get d k')"
  by (induction d) (auto simp: dict_get_def)

lemma dict_get_setdefault:
  "dict_get (dict_setdefault d k v) k' =
     (if k' = k then (case dict_get d k of None \<Rightarrow> Some v | Some u \<Rightarrow> Some u)
      else dict_get d k')"
  by (auto simp: dict_setdefault_def dict_get_set split: option.splits)

lemma exec_steps_append:
  "exec_steps reg q h (xs @ ys) st =
     (case exec_steps reg q h xs st of
        (Some e, st') \<Rightarrow> (Some e, st')
      | (None, st') \<Rightarrow> exec_steps reg q h ys st')"
  by (induction xs arbitrary: st) (auto split: prod.splits option.splits)

lemma exec_step_skip:
  "\<not> executable s \<Longrightarrow> exec_step reg q h s st = (None, st)"
  by (simp add: exec_step_def executable_def Let_def)

lemma exec_step_run:
  assumes "executable s" and "exec_step reg q h s st = (e, st')"
  shows "map fst (trace st') = map fst (trace st) @ [step_name s] \<and>
         (e = None \<longrightarrow> map tool (results st') = map tool (results st) @ [Some (step_name s)]) \<and>
         (e \<noteq> None \<longrightarrow> results st' = results st)"
  using assms
  by (auto simp: exec_step_def executable_def Let_def split: prod.splits sum.splits)

lemma exec_steps_calls:
  "exec_steps reg q h ss st = (e, st') \<Longrightarrow>
     prefix (map fst (trace st')) (map fst (trace st) @ map step_name (filter executable ss)) \<and>
     prefix (map fst (trace st)) (map fst (trace st')) \<and>
     (e = None \<longrightarrow>
        map fst (trace st') = map fst (trace st) @ map step_name (filter executable ss) \<and>
        map tool (results st') =
          map tool (results st) @ map (Some \<circ> step_name) (filter executable ss))"
proof (induction ss arbitrary: st)
  case Nil
  then show ?case by simp
next
  case (Cons s ss)
  show ?case
  proof (cases "executable s")
    case False
    with Cons show ?thesis by (simp add: exec_step_skip)
  next
    case True
    obtain e1 st1 where s1: "exec_step reg q h s st = (e1, st1)"
      by (cases "exec_step reg q h s st")
    note r = exec_step_run [OF True s1]
    show ?thesis
    proof (cases e1)
      case (Some x)
      with Cons.prems s1 have "e = Some x" "st' = st1" by auto
      with r True show ?thesis by simp
    next
      case None
      with Cons.prems s1 have "exec_steps reg q h ss st1 = (e, st')" by simp
      from Cons.IH [OF this] r None True show ?thesis
        by (auto simp: prefix_def)
    qed
  qed
qed

section \<open>The orchestrator\<close>

text \<open>
  C3.  When the planner returns exactly one step whose tool is \<^verbatim>\<open>general_chat\<close>,
  \<^verbatim>\<open>process_query\<close> makes no call of \<^verbatim>\<open>registry.execute\<close>; what it returns
  has empty \<^verbatim>\<open>tool_results\<close> and \<^verbatim>\<open>images\<close> and the answer of
  \<^verbatim>\<open>general_chat\<close> as response, and the only exception that can leave it is the one
  \<^verbatim>\<open>general_chat\<close> raised.
\<close>

theorem general_chat_short_circuit:
  assumes "plan_tools (llm ag) q (get_descriptions (registry ag))
             (get_formatted_history 10 (add_message clk1 (ascii ''user'') q None (dialogue ag)))
             (data_schema ag) w = (Inr [s], w1)"
      and "step_tool s = Some (ascii ''general_chat'')"
  shows "registry_calls (process_query clk1 clk2 q ag w) = [] \<and>
         (case fst (process_query clk1 clk2 q ag w) of
            Inr r \<Rightarrow> tool_results r = [] \<and> images r = [] \<and>
                     fst (general_chat (llm ag) q w1) = Inr (response r)
          | Inl e \<Rightarrow> fst (general_chat (llm ag) q w1) = Inl e)"
  using assms
  by (auto simp: process_query_def Let_def is_general_chat_plan_def registry_calls_def
      split: prod.splits sum.splits)

theorem general_chat_short_circuit_witness:
  "registry_calls (process_query demo_clock demo_clock (ascii ''hi'')
      (demo_agent [demo_step ''general_chat'']) 0) = [] \<and>
   (case fst (process_query demo_clock demo_clock (ascii ''hi'')
               (demo_agent [demo_step ''general_chat'']) 0) of
      Inr r \<Rightarrow> tool_results r = [] \<and> images r = [] \<and>
               fst (general_chat (llm (demo_agent [demo_step ''general_chat''])) (ascii ''hi'') 0)
                 = Inr (response r)
    | Inl e \<Rightarrow> fst (general_chat (llm (demo_agent [demo_step ''general_chat''])) (ascii ''hi'') 0)
                 = Inl e)"
  by (rule general_chat_short_circuit [where ?w1.0 = 0 and s = "demo_step ''general_chat''"])
     (simp_all add: demo_agent_def demo_llm_def demo_step_def)

lemma exec_steps_accumulated:
  "exec_steps reg q h ss st = (e, st') \<Longrightarrow>
     accumulated_context st = concat (map digest (results st)) \<Longrightarrow>
     accumulated_context st' = concat (map digest (results st'))"
proof (induction ss arbitrary: st)
  case Nil
  then show ?case by simp
next
  case (Cons s ss)
  obtain e1 st1 where s1: "exec_step reg q h s st = (e1, st1)"
    by (cases "exec_step reg q h s st")
  then have a1: "accumulated_context st1 = concat (map digest (results st1))"
    using Cons.prems(2)
    by (auto simp: exec_step_def Let_def split: if_splits prod.splits sum.splits)
  show ?case
  proof (cases e1)
    case (Some x)
    with Cons.prems s1 a1 show ?thesis by auto
  next
    case None
    with Cons.prems s1 have "exec_steps reg q h ss st1 = (e, st')" by simp
    from Cons.IH [OF this a1] show ?thesis .
  qed
qed

lemma digest_nonempty: "digest r \<noteq> []"
  by (simp add: digest_def ascii_def)

lemma plan_cap_bounds:
  assumes "plan_tools (llm ag) q (get_descriptions (registry ag))
             (get_formatted_history 10 (add_message clk1 (ascii ''user'') q None (dialogue ag)))
             (data_schema ag) w = (Inr plan, w1)"
      and "MAX_STEPS < length plan"
  shows "length (registry_calls (process_query clk1 clk2 q ag w)) \<le> 8 \<and>
         prefix (map fst (registry_calls (process_query clk1 clk2 q ag w)))
                (map step_name (filter executable (take 8 plan))) \<and>
         (\<forall>r. fst (process_query clk1 clk2 q ag w) = Inr r \<longrightarrow>
              length (tool_results r) \<le> 8 \<and>
              map tool (tool_results r) = map (Some \<circ> step_name) (filter executable (take 8 plan)))"
proof -
  let ?h = "get_formatted_history 10 (add_message clk1 (ascii ''user'') q None (dialogue ag))"
  obtain e st where run: "exec_steps (registry ag) q ?h (take MAX_STEPS plan) (init_state w1) = (e, st)"
    by (cases "exec_steps (registry ag) q ?h (take MAX_STEPS plan) (init_state w1)")
  from assms(2) have nochat: "\<not> is_general_chat_plan plan"
    by (auto simp: is_general_chat_plan_def MAX_STEPS_def split: list.splits)
  have calls: "registry_calls (process_query clk1 clk2 q ag w) = trace st"
    using assms(1) nochat run
    by (auto simp: process_query_def Let_def registry_calls_def split: prod.splits sum.splits option.splits)
  note c = exec_steps_calls [OF run]
  have pre: "prefix (map fst (trace st)) (map step_name (filter executable (take 8 plan)))"
    using c by (simp add: init_state_def MAX_STEPS_def)
  have "length (map fst (trace st)) \<le> length (map step_name (filter executable (take 8 plan)))"
    using pre by (rule prefix_length_le)
  also have "\<dots> \<le> length (take 8 plan)" unfolding length_map by (rule length_filter_le)
  also have "\<dots> \<le> 8" by simp
  finally have len: "length (trace st) \<le> 8" by simp
  have res: "map tool (tool_results r) = map (Some \<circ> step_name) (filter executable (take 8 plan))"
    if "fst (process_query clk1 clk2 q ag w) = Inr r" for r
  proof -
    from that assms(1) nochat run have "e = None \<and> tool_results r = results st"
      by (auto simp: process_query_def Let_def split: prod.splits sum.splits option.splits if_splits)
    with c show ?thesis by (simp add: init_state_def MAX_STEPS_def)
  qed
  have reslen: "length (tool_results r) \<le> 8" if "fst (process_query clk1 clk2 q ag w) = Inr r" for r
  proof -
    have "length (map tool (tool_results r)) = length (map (Some \<circ> step_name) (filter executable (take 8 plan)))"
      using res [OF that] by simp
    also have "\<dots> \<le> length (take 8 plan)" unfolding length_map by (rule length_filter_le)
    also have "\<dots> \<le> 8" by simp
    finally show ?thesis by simp
  qed
  from calls len pre res reslen show ?thesis by simp
qed

lemma general_chat_plan_length: "is_general_chat_plan p \<Longrightarrow> length p = 1"
  by (auto simp: is_general_chat_plan_def split: list.splits)

lemma plan_cap_tail_ignored:
  assumes "plan_tools (llm ag) q (get_descriptions (registry ag))
             (get_formatted_history 10 (add_message clk1 (ascii ''user'') q None (dialogue ag)))
             (data_schema ag) w = (Inr plan, w1)"
      and "MAX_STEPS < length plan"
      and "ag' = ag\<lparr>llm := (llm ag)\<lparr>plan_tools := (\<lambda>q ds h sch w. (Inr (take MAX_STEPS plan), w1))\<rparr>\<rparr>"
  shows "fst (process_query clk1 clk2 q ag' w) = fst (process_query clk1 clk2 q ag w) \<and>
         registry_calls (process_query clk1 clk2 q ag' w) = registry_calls (process_query clk1 clk2 q ag w)"
proof -
  from assms(2) have n1: "\<not> is_general_chat_plan plan"
    by (auto simp: is_general_chat_plan_def MAX_STEPS_def split: list.splits)
  from assms(2) have "length (take MAX_STEPS plan) = 8" by (simp add: MAX_STEPS_def)
  then have n2: "\<not> is_general_chat_plan (take MAX_STEPS plan)"
    using general_chat_plan_length by fastforce
  show ?thesis
    using assms(1) n1 n2 unfolding assms(3)
    by (simp add: process_query_def Let_def registry_calls_def split: prod.splits sum.splits option.splits)
qed


text \<open>
  C4.  When the planner returns more than \<^verbatim>\<open>MAX_STEPS\<close> = 8 steps,
  \<^verbatim>\<open>registry.execute\<close> is called at most 8 times, the tools called are, in order,
  an initial part of the executable steps among the first 8, a returned
  \<^verbatim>\<open>tool_results\<close> has at most 8 elements, one per executable step among the first
  8, and the outcome and the calls are the ones of the same agent whose planner returns
  only the first 8 steps: no step from the ninth on is looked at.
\<close>

theorem plan_capped_at_max_steps:
  assumes "plan_tools (llm ag) q (get_descriptions (registry ag))
             (get_formatted_history 10 (add_message clk1 (ascii ''user'') q None (dialogue ag)))
             (data_schema ag) w = (Inr plan, w1)"
      and "MAX_STEPS < length plan"
  shows "length (registry_calls (process_query clk1 clk2 q ag w)) \<le> 8 \<and>
         prefix (map fst (registry_calls (process_query clk1 clk2 q ag w)))
                (map step_name (filter executable (take 8 plan))) \<and>
         (\<forall>r. fst (process_query clk1 clk2 q ag w) = Inr r \<longrightarrow>
              length (tool_results r) \<le> 8 \<and>
              map tool (tool_results r) =
                map (Some \<circ> step_name) (filter executable (take 8 plan))) \<and>
         fst (process_query clk1 clk2 q
                (ag\<lparr>llm := (llm ag)\<lparr>plan_tools :=
                   (\<lambda>q ds h sch w. (Inr (take MAX_STEPS plan), w1))\<rparr>\<rparr>) w)
           = fst (process_query clk1 clk2 q ag w) \<and>
         registry_calls (process_query clk1 clk2 q
                (ag\<lparr>llm := (llm ag)\<lparr>plan_tools :=
                   (\<lambda>q ds h sch w. (Inr (take MAX_STEPS plan), w1))\<rparr>\<rparr>) w)
           = registry_calls (process_query clk1 clk2 q ag w)"
  using plan_cap_bounds [OF assms, of clk2] plan_cap_tail_ignored [OF assms refl, of clk2]
  by blast

lemma demo_inspector_step:
  "exec_step demo_registry q h (demo_step ''data_inspector'') st =
     (None,
      st\<lparr>trace := trace st @ [(ascii ''data_inspector'', [(ascii ''context'', JStr h)])],
         results := results st @
           [\<lparr>success = True, result = ascii ''ok'', data = None, image_path = None,
             dataframe = None, tool = Some (ascii ''data_inspector''), reason = Some (ascii ''r'')\<rparr>],
         imgs := imgs st,
         accumulated_context := accumulated_context st @
           digest \<lparr>success = True, result = ascii ''ok'', data = None, image_path = None,
             dataframe = None, tool = Some (ascii ''data_inspector''), reason = Some (ascii ''r'')\<rparr>,
         world := Suc (world st)\<rparr>)"
  by (simp add: exec_step_def demo_step_def step_name_def step_why_def step_kwargs_def
      prepare_args_def ascii_def dict_get_def Let_def registry_execute_def binds_def
      execute_body_def registry_get_def demo_registry_def register_def demo_tool_def
      failing_tool_def safe_execute_def)


lemma demo_inspector_steps:
  "fst (exec_steps demo_registry q h (replicate n (demo_step ''data_inspector'')) st) = None"
  by (induction n arbitrary: st) (simp_all add: demo_inspector_step)

theorem plan_capped_witness:
  "MAX_STEPS < length (replicate 9 (demo_step ''data_inspector'')) \<and>
   length (registry_calls (process_query demo_clock demo_clock (ascii ''q'')
      (demo_agent (replicate 9 (demo_step ''data_inspector''))) 0)) \<le> 8 \<and>
   (\<exists>r. fst (process_query demo_clock demo_clock (ascii ''q'')
      (demo_agent (replicate 9 (demo_step ''data_inspector''))) 0) = Inr r \<and>
      length (tool_results r) \<le> 8)"
proof -
  let ?plan = "replicate 9 (demo_step ''data_inspector'')"
  let ?out = "process_query demo_clock demo_clock (ascii ''q'') (demo_agent ?plan) 0"
  have h1: "plan_tools (llm (demo_agent ?plan)) (ascii ''q'')
             (get_descriptions (registry (demo_agent ?plan)))
             (get_formatted_history 10
               (add_message demo_clock (ascii ''user'') (ascii ''q'') None (dialogue (demo_agent ?plan))))
             (data_schema (demo_agent ?plan)) 0 = (Inr ?plan, 0)"
    by (simp add: demo_agent_def demo_llm_def)
  have h2: "MAX_STEPS < length ?plan" by (simp add: MAX_STEPS_def)
  note c = plan_capped_at_max_steps [OF h1 h2, of demo_clock]
  have n: "\<not> is_general_chat_plan ?plan"
    using general_chat_plan_length [of ?plan] by auto
  let ?h = "get_formatted_history 10
               (add_message demo_clock (ascii ''user'') (ascii ''q'') None (dialogue (demo_agent ?plan)))"
  have tk: "take MAX_STEPS ?plan = replicate 8 (demo_step ''data_inspector'')"
    by (simp add: MAX_STEPS_def)
  obtain st where run: "exec_steps (registry (demo_agent ?plan)) (ascii ''q'') ?h
                          (take MAX_STEPS ?plan) (init_state 0) = (None, st)"
    using demo_inspector_steps [of "ascii ''q''" ?h 8 "init_state 0"] unfolding tk
    by (cases "exec_steps (registry (demo_agent ?plan)) (ascii ''q'') ?h
                 (replicate 8 (demo_step ''data_inspector'')) (init_state 0)")
       (simp add: demo_agent_def)
  have "\<exists>r. fst ?out = Inr r"
    unfolding process_query_def Let_def h1 using n run
    by (simp add: demo_agent_def demo_llm_def)
  with c h2 show ?thesis by blast
qed

lemma exec_step_trace_extends:
  "exec_step reg q h s st = (e, st') \<Longrightarrow> \<exists>ext. trace st' = trace st @ ext"
  by (auto simp: exec_step_def Let_def split: if_splits prod.splits sum.splits)

lemma exec_steps_trace_extends:
  "exec_steps reg q h ss st = (e, st') \<Longrightarrow> \<exists>ext. trace st' = trace st @ ext"
proof (induction ss arbitrary: st)
  case Nil
  then show ?case by simp
next
  case (Cons s ss)
  obtain e1 st1 where s1: "exec_step reg q h s st = (e1, st1)"
    by (cases "exec_step reg q h s st")
  from exec_step_trace_extends [OF s1] obtain x where x: "trace st1 = trace st @ x" ..
  show ?case
  proof (cases e1)
    case (Some a)
    with Cons.prems s1 x show ?thesis by auto
  next
    case None
    with Cons.prems s1 have "exec_steps reg q h ss st1 = (e, st')" by simp
    from Cons.IH [OF this] x show ?thesis by auto
  qed
qed

lemma exec_steps_results_extends:
  "exec_steps reg q h ss st = (e, st') \<Longrightarrow> \<exists>ext. results st' = results st @ ext"
proof (induction ss arbitrary: st)
  case Nil
  then show ?case by simp
next
  case (Cons s ss)
  obtain e1 st1 where s1: "exec_step reg q h s st = (e1, st1)"
    by (cases "exec_step reg q h s st")
  then have "\<exists>x. results st1 = results st @ x"
    by (auto simp: exec_step_def Let_def split: if_splits prod.splits sum.splits)
  then obtain x where x: "results st1 = results st @ x" ..
  show ?case
  proof (cases e1)
    case (Some a)
    with Cons.prems s1 x show ?thesis by auto
  next
    case None
    with Cons.prems s1 have "exec_steps reg q h ss st1 = (e, st')" by simp
    from Cons.IH [OF this] x show ?thesis by auto
  qed
qed

lemma prepare_args_report_generator:
  assumes "acc \<noteq> []"
      and "dict_get kw (ascii ''analysis_results'') = None"
  shows "dict_get (prepare_args q h acc (ascii ''report_generator'') kw) (ascii ''analysis_results'')
           = Some (JStr acc)"
    and "dict_get (prepare_args q h acc (ascii ''report_generator'') kw) (ascii ''question'')
           = (case dict_get kw (ascii ''question'') of None \<Rightarrow> Some (JStr q) | Some v \<Rightarrow> Some v)"
    and "dict_get (prepare_args q h acc (ascii ''report_generator'') kw) (ascii ''context'')
           = (case dict_get kw (ascii ''context'') of None \<Rightarrow> Some (JStr h) | Some v \<Rightarrow> Some v)"
    and "k \<noteq> ascii ''analysis_results'' \<Longrightarrow> k \<noteq> ascii ''question'' \<Longrightarrow> k \<noteq> ascii ''context''
           \<Longrightarrow> dict_get (prepare_args q h acc (ascii ''report_generator'') kw) k = dict_get kw k"
proof -
  have k1: "ascii ''analysis_results'' \<noteq> ascii ''question''"
    and k2: "ascii ''analysis_results'' \<noteq> ascii ''context''"
    and k3: "ascii ''question'' \<noteq> ascii ''context''"
    by (simp_all add: ascii_def)
  show "dict_get (prepare_args q h acc (ascii ''report_generator'') kw) (ascii ''analysis_results'')
           = Some (JStr acc)"
    using assms k1 k2 by (simp add: prepare_args_def Let_def dict_get_set dict_get_setdefault)
  show "dict_get (prepare_args q h acc (ascii ''report_generator'') kw) (ascii ''question'')
           = (case dict_get kw (ascii ''question'') of None \<Rightarrow> Some (JStr q) | Some v \<Rightarrow> Some v)"
    using assms k1 k3
    by (simp add: prepare_args_def Let_def dict_get_set dict_get_setdefault split: option.splits)
  show "dict_get (prepare_args q h acc (ascii ''report_generator'') kw) (ascii ''context'')
           = (case dict_get kw (ascii ''context'') of None \<Rightarrow> Some (JStr h) | Some v \<Rightarrow> Some v)"
    using assms k2 k3
    by (auto simp add: prepare_args_def Let_def dict_get_set dict_get_setdefault split: option.splits)
  show "dict_get (prepare_args q h acc (ascii ''report_generator'') kw) k = dict_get kw k"
    if "k \<noteq> ascii ''analysis_results''" "k \<noteq> ascii ''question''" "k \<noteq> ascii ''context''"
    using that assms
    by (simp add: prepare_args_def Let_def dict_get_set dict_get_setdefault)
qed

lemma exec_steps_digests:
  assumes "exec_steps reg q h ss (init_state w) = (e, st)"
  shows "accumulated_context st =
           concat (map (\<lambda>r. [10, 10] @ ascii ''### '' @ (case tool r of None \<Rightarrow> [] | Some n \<Rightarrow> n)
                          @ ascii '' ('' @ (case reason r of None \<Rightarrow> [] | Some y \<Rightarrow> y)
                          @ ascii '')'' @ [10] @ result r) (results st))"
proof -
  have "accumulated_context st = concat (map digest (results st))"
    using exec_steps_accumulated [OF assms] by (simp add: init_state_def)
  moreover have "digest = (\<lambda>r. [10, 10] @ ascii ''### '' @ (case tool r of None \<Rightarrow> [] | Some n \<Rightarrow> n)
                          @ ascii '' ('' @ (case reason r of None \<Rightarrow> [] | Some y \<Rightarrow> y)
                          @ ascii '')'' @ [10] @ result r)"
    by (rule ext) (simp add: digest_def ascii_def)
  ultimately show ?thesis by simp
qed

text \<open>
  C5.  Let the report generator's step \<open>s\<close> stand among the first \<^verbatim>\<open>MAX_STEPS\<close>
  steps of the plan, after steps \<open>pre\<close> that ran without an exception into the loop
  state \<open>st\<close> with at least one successful result, and let the planner's arguments of
  \<open>s\<close> have no key \<^verbatim>\<open>analysis_results\<close>.  Then \<^verbatim>\<open>registry.execute\<close> is
  applied, for \<^verbatim>\<open>report_generator\<close> and in the world the steps before left, to an
  argument mapping \<open>args\<close> in which

    \<^item> \<^verbatim>\<open>analysis_results\<close> is the text made, for each result so far and in
      order, of two line feeds, \<^verbatim>\<open>### {tool} ({reason})\<close>, a line feed and the
      result's text;
    \<^item> \<^verbatim>\<open>question\<close> is the planner's value if there is one and the user query
      otherwise;
    \<^item> \<^verbatim>\<open>context\<close> is the planner's value if there is one and the history
      otherwise, and every other key is as the planner gave it.

  What that application returns is what \<^verbatim>\<open>process_query\<close> goes on with: an
  exception it raises leaves \<^verbatim>\<open>process_query\<close>, with the world it left; a
  dictionary it returns is, with \<^verbatim>\<open>tool\<close> and \<^verbatim>\<open>reason\<close> set, the entry of
  the returned \<^verbatim>\<open>tool_results\<close> that follows the results so far.
\<close>

theorem report_generator_gets_digest:
  assumes "plan_tools (llm ag) q (get_descriptions (registry ag))
             (get_formatted_history 10 (add_message clk1 (ascii ''user'') q None (dialogue ag)))
             (data_schema ag) w = (Inr plan, w1)"
      and "take MAX_STEPS plan = pre @ s # post"
      and "exec_steps (registry ag) q
             (get_formatted_history 10 (add_message clk1 (ascii ''user'') q None (dialogue ag)))
             pre (init_state w1) = (None, st)"
      and "\<exists>r \<in> set (results st). success r"
      and "step_tool s = Some (ascii ''report_generator'')"
      and "dict_get (step_kwargs s) (ascii ''analysis_results'') = None"
  shows "\<exists>args.
           dict_get args (ascii ''analysis_results'') =
             Some (JStr (concat (map
               (\<lambda>r. [10, 10] @ ascii ''### '' @ (case tool r of None \<Rightarrow> [] | Some n \<Rightarrow> n)
                      @ ascii '' ('' @ (case reason r of None \<Rightarrow> [] | Some y \<Rightarrow> y)
                      @ ascii '')'' @ [10] @ result r)
               (results st)))) \<and>
           dict_get args (ascii ''question'') =
             (case dict_get (step_kwargs s) (ascii ''question'') of
                None \<Rightarrow> Some (JStr q) | Some v \<Rightarrow> Some v) \<and>
           dict_get args (ascii ''context'') =
             (case dict_get (step_kwargs s) (ascii ''context'') of
                None \<Rightarrow> Some (JStr (get_formatted_history 10
                         (add_message clk1 (ascii ''user'') q None (dialogue ag))))
              | Some v \<Rightarrow> Some v) \<and>
           (\<forall>k. k \<noteq> ascii ''analysis_results'' \<and> k \<noteq> ascii ''question'' \<and> k \<noteq> ascii ''context''
                \<longrightarrow> dict_get args k = dict_get (step_kwargs s) k) \<and>
           (case registry_execute (registry ag) (ascii ''report_generator'') args (world st) of
              (Inl e, w') \<Rightarrow>
                process_query clk1 clk2 q ag w =
                  (Inl e,
                   ag\<lparr>dialogue := add_message clk1 (ascii ''user'') q None (dialogue ag)\<rparr>,
                   w', trace st @ [(ascii ''report_generator'', args)])
            | (Inr r0, w') \<Rightarrow>
                (\<exists>rest. registry_calls (process_query clk1 clk2 q ag w) =
                           trace st @ (ascii ''report_generator'', args) # rest) \<and>
                (\<forall>res. fst (process_query clk1 clk2 q ag w) = Inr res \<longrightarrow>
                   take (Suc (length (results st))) (tool_results res) =
                     results st @ [r0\<lparr>tool := Some (ascii ''report_generator''),
                                      reason := Some (step_why s)\<rparr>]))"
proof -
  let ?h = "get_formatted_history 10 (add_message clk1 (ascii ''user'') q None (dialogue ag))"
  let ?rg = "ascii ''report_generator''"
  let ?args = "prepare_args q ?h (accumulated_context st) ?rg (step_kwargs s)"
  from assms(4) have rne: "results st \<noteq> []" by auto
  have acc: "accumulated_context st = concat (map digest (results st))"
    using exec_steps_accumulated [OF assms(3)] by (simp add: init_state_def)
  with rne have accne: "accumulated_context st \<noteq> []"
    by (cases "results st") (auto simp: digest_nonempty)
  from rne assms(3) have "pre \<noteq> []" by (auto simp: init_state_def)
  then have "2 \<le> length (pre @ s # post)" by (cases pre) auto
  with assms(2) have "2 \<le> length plan"
    by (metis length_take min.cobounded1 order_trans)
  then have nochat: "\<not> is_general_chat_plan plan"
    using general_chat_plan_length by fastforce
  have ne: "?rg \<noteq> ascii ''general_chat''"
    by (simp add: ascii_def)
  have nm: "step_name s = ?rg" using assms(5) by (simp add: step_name_def)
  note pa = prepare_args_report_generator [OF accne assms(6), where q = q and h = ?h]
  have a1: "dict_get ?args (ascii ''analysis_results'') =
             Some (JStr (concat (map
               (\<lambda>r. [10, 10] @ ascii ''### '' @ (case tool r of None \<Rightarrow> [] | Some n \<Rightarrow> n)
                      @ ascii '' ('' @ (case reason r of None \<Rightarrow> [] | Some y \<Rightarrow> y)
                      @ ascii '')'' @ [10] @ result r)
               (results st))))"
    using pa(1) exec_steps_digests [OF assms(3)] by simp
  have run: "exec_steps (registry ag) q ?h (take MAX_STEPS plan) (init_state w1) =
               (case exec_step (registry ag) q ?h s st of
                  (Some e, st') \<Rightarrow> (Some e, st')
                | (None, st') \<Rightarrow> exec_steps (registry ag) q ?h post st')"
    using assms(2,3) by (simp add: exec_steps_append)
  have c: "(case registry_execute (registry ag) ?rg ?args (world st) of
              (Inl e, w') \<Rightarrow>
                process_query clk1 clk2 q ag w =
                  (Inl e,
                   ag\<lparr>dialogue := add_message clk1 (ascii ''user'') q None (dialogue ag)\<rparr>,
                   w', trace st @ [(?rg, ?args)])
            | (Inr r0, w') \<Rightarrow>
                (\<exists>rest. registry_calls (process_query clk1 clk2 q ag w) =
                           trace st @ (?rg, ?args) # rest) \<and>
                (\<forall>res. fst (process_query clk1 clk2 q ag w) = Inr res \<longrightarrow>
                   take (Suc (length (results st))) (tool_results res) =
                     results st @ [r0\<lparr>tool := Some ?rg, reason := Some (step_why s)\<rparr>]))"
  proof (cases "registry_execute (registry ag) ?rg ?args (world st)")
    case (Pair o1 w')
    show ?thesis
    proof (cases o1)
      case (Inl e)
      with Pair nm ne have "exec_step (registry ag) q ?h s st =
          (Some e, st\<lparr>trace := trace st @ [(?rg, ?args)], world := w'\<rparr>)"
        by (simp add: exec_step_def Let_def)
      with run have "exec_steps (registry ag) q ?h (take MAX_STEPS plan) (init_state w1) =
          (Some e, st\<lparr>trace := trace st @ [(?rg, ?args)], world := w'\<rparr>)" by simp
      with assms(1) nochat have "process_query clk1 clk2 q ag w =
                  (Inl e,
                   ag\<lparr>dialogue := add_message clk1 (ascii ''user'') q None (dialogue ag)\<rparr>,
                   w', trace st @ [(?rg, ?args)])"
        by (simp add: process_query_def Let_def)
      with Pair Inl show ?thesis by simp
    next
      case (Inr r0)
      let ?r = "r0\<lparr>tool := Some ?rg, reason := Some (step_why s)\<rparr>"
      obtain st1 where st1: "exec_step (registry ag) q ?h s st = (None, st1)"
        and t1: "trace st1 = trace st @ [(?rg, ?args)]"
        and r1: "results st1 = results st @ [?r]"
        using Pair Inr nm ne by (simp add: exec_step_def Let_def)
      obtain e st' where fin: "exec_steps (registry ag) q ?h post st1 = (e, st')"
        by (cases "exec_steps (registry ag) q ?h post st1")
      from run st1 fin have all: "exec_steps (registry ag) q ?h (take MAX_STEPS plan) (init_state w1) = (e, st')"
        by simp
      from exec_steps_trace_extends [OF fin] t1
      obtain rest where t2: "trace st' = trace st @ (?rg, ?args) # rest" by auto
      from exec_steps_results_extends [OF fin] r1
      obtain ext where r2: "results st' = results st @ ?r # ext" by auto
      have calls: "registry_calls (process_query clk1 clk2 q ag w) = trace st'"
        using assms(1) nochat all
        by (auto simp: process_query_def Let_def registry_calls_def
            split: prod.splits sum.splits option.splits)
      have res: "tool_results res = results st'" if "fst (process_query clk1 clk2 q ag w) = Inr res" for res
        using that assms(1) nochat all
        by (auto simp: process_query_def Let_def split: prod.splits sum.splits option.splits if_splits)
      have "\<exists>rest. registry_calls (process_query clk1 clk2 q ag w) = trace st @ (?rg, ?args) # rest"
        using calls t2 by simp
      moreover have "\<forall>res. fst (process_query clk1 clk2 q ag w) = Inr res \<longrightarrow>
                   take (Suc (length (results st))) (tool_results res) = results st @ [?r]"
        using res r2 by simp
      ultimately show ?thesis using Pair Inr by simp
    qed
  qed
  show ?thesis
    apply (rule exI [of _ ?args])
    apply (intro conjI)
        apply (rule a1)
       apply (rule pa(2))
      apply (rule pa(3))
     apply (intro allI impI, elim conjE, rule pa(4); assumption)
    apply (rule c)
    done
qed


lemma echo_inspector_step:
  "exec_step echo_registry q h (demo_step ''data_inspector'') st =
     (None,
      st\<lparr>trace := trace st @ [(ascii ''data_inspector'', [(ascii ''context'', JStr h)])],
         results := results st @
           [\<lparr>success = True, result = ascii ''ok'', data = None, image_path = None,
             dataframe = None, tool = Some (ascii ''data_inspector''), reason = Some (ascii ''r'')\<rparr>],
         imgs := imgs st,
         accumulated_context := accumulated_context st @
           digest \<lparr>success = True, result = ascii ''ok'', data = None, image_path = None,
             dataframe = None, tool = Some (ascii ''data_inspector''), reason = Some (ascii ''r'')\<rparr>,
         world := Suc (world st)\<rparr>)"
  by (simp add: exec_step_def demo_step_def step_name_def step_why_def step_kwargs_def
      prepare_args_def ascii_def dict_get_def Let_def registry_execute_def binds_def
      execute_body_def registry_get_def echo_registry_def register_def demo_tool_def
      echo_tool_def safe_execute_def)

lemma echo_report_step:
  "fst (exec_step echo_registry q h (demo_step ''report_generator'') st) = None"
  by (simp add: exec_step_def demo_step_def step_name_def step_why_def step_kwargs_def
      ascii_def Let_def registry_execute_def binds_def prepare_args_def dict_get_def
      dict_setdefault_def
      execute_body_def registry_get_def echo_registry_def register_def demo_tool_def
      echo_tool_def safe_execute_def split: prod.splits)

theorem report_generator_witness:
  "success (hd (results echo_after_inspector)) \<and>
   (\<exists>res. fst (process_query demo_clock demo_clock (ascii ''q'')
                  (echo_agent demo_report_plan) 0) = Inr res \<and>
      take 2 (tool_results res) =
        [\<lparr>success = True, result = ascii ''ok'', data = None, image_path = None,
          dataframe = None, tool = Some (ascii ''data_inspector''),
          reason = Some (ascii ''r'')\<rparr>,
         \<lparr>success = True,
          result = [10, 10] @ ascii ''### data_inspector (r)'' @ [10] @ ascii ''ok'',
          data = None, image_path = None, dataframe = None,
          tool = Some (ascii ''report_generator''), reason = Some (ascii ''r'')\<rparr>])"
proof -
  let ?ag = "echo_agent demo_report_plan"
  let ?h = "get_formatted_history 10
               (add_message demo_clock (ascii ''user'') (ascii ''q'') None (dialogue ?ag))"
  let ?rg = "ascii ''report_generator''"
  have h1: "plan_tools (llm ?ag) (ascii ''q'') (get_descriptions (registry ?ag)) ?h
             (data_schema ?ag) 0 = (Inr demo_report_plan, 0)"
    by (simp add: echo_agent_def demo_llm_def)
  have h2: "take MAX_STEPS demo_report_plan =
              [demo_step ''data_inspector''] @ demo_step ''report_generator'' # []"
    by (simp add: MAX_STEPS_def demo_report_plan_def)
  have hh: "?h = demo_history"
    by (simp add: demo_history_def echo_agent_def)
  have h3: "exec_steps (registry ?ag) (ascii ''q'') ?h
              [demo_step ''data_inspector''] (init_state 0) = (None, echo_after_inspector)"
    unfolding hh
    by (simp add: echo_after_inspector_def echo_agent_def echo_inspector_step init_state_def
        digest_def ascii_def)
  have h4: "\<exists>r \<in> set (results echo_after_inspector). success r"
    by (simp add: echo_after_inspector_def)
  have h5: "step_tool (demo_step ''report_generator'') = Some ?rg"
    by (simp add: demo_step_def)
  have h6: "dict_get (step_kwargs (demo_step ''report_generator'')) k = None" for k
    by (simp add: demo_step_def step_kwargs_def dict_get_def)
  from report_generator_gets_digest [OF h1 h2 h3 h4 h5 h6, of demo_clock]
  obtain args where a0: "dict_get args (ascii ''analysis_results'') =
             Some (JStr (concat (map
               (\<lambda>r. [10, 10] @ ascii ''### '' @ (case tool r of None \<Rightarrow> [] | Some n \<Rightarrow> n)
                      @ ascii '' ('' @ (case reason r of None \<Rightarrow> [] | Some y \<Rightarrow> y)
                      @ ascii '')'' @ [10] @ result r)
               (results echo_after_inspector))))"
    and o0: "\<forall>k. k \<noteq> ascii ''analysis_results'' \<and> k \<noteq> ascii ''question'' \<and> k \<noteq> ascii ''context''
                \<longrightarrow> dict_get args k = dict_get (step_kwargs (demo_step ''report_generator'')) k"
    and c0: "(case registry_execute (registry ?ag) ?rg args (world echo_after_inspector) of
              (Inl e, w') \<Rightarrow>
                process_query demo_clock demo_clock (ascii ''q'') ?ag 0 =
                  (Inl e,
                   ?ag\<lparr>dialogue := add_message demo_clock (ascii ''user'') (ascii ''q'') None (dialogue ?ag)\<rparr>,
                   w', trace echo_after_inspector @ [(?rg, args)])
            | (Inr r0, w') \<Rightarrow>
                (\<exists>rest. registry_calls (process_query demo_clock demo_clock (ascii ''q'') ?ag 0) =
                           trace echo_after_inspector @ (?rg, args) # rest) \<and>
                (\<forall>res. fst (process_query demo_clock demo_clock (ascii ''q'') ?ag 0) = Inr res \<longrightarrow>
                   take (Suc (length (results echo_after_inspector))) (tool_results res) =
                     results echo_after_inspector @
                       [r0\<lparr>tool := Some ?rg, reason := Some (step_why (demo_step ''report_generator''))\<rparr>]))"
    by (elim exE conjE) (rule that)
  from a0 have a: "dict_get args (ascii ''analysis_results'') =
        Some (JStr ([10, 10] @ ascii ''### data_inspector (r)'' @ [10] @ ascii ''ok''))"
    by (simp add: echo_after_inspector_def ascii_def)
  from o0 have o: "\<forall>k. k \<noteq> ascii ''analysis_results'' \<and> k \<noteq> ascii ''question'' \<and> k \<noteq> ascii ''context''
                \<longrightarrow> dict_get args k = None"
    by (simp add: h6)
  have b: "binds args"
    using o by (simp add: binds_def ascii_def)
  have e: "registry_execute (registry ?ag) ?rg args (world echo_after_inspector) =
             (Inr \<lparr>success = True,
                   result = [10, 10] @ ascii ''### data_inspector (r)'' @ [10] @ ascii ''ok'',
                   data = None, image_path = None, dataframe = None, tool = None,
                   reason = None\<rparr>, 2)"
    using a b
    by (simp add: registry_execute_def execute_body_def registry_get_def echo_agent_def
        echo_registry_def register_def dict_get_def safe_execute_def echo_tool_def
        demo_tool_def echo_after_inspector_def ascii_def)
  have n: "\<not> is_general_chat_plan demo_report_plan"
    by (simp add: is_general_chat_plan_def demo_report_plan_def)
  have tk: "take MAX_STEPS demo_report_plan = demo_report_plan"
    by (simp add: MAX_STEPS_def demo_report_plan_def)
  obtain x st2 where s2: "exec_step echo_registry (ascii ''q'') ?h (demo_step ''report_generator'')
                      (snd (exec_step echo_registry (ascii ''q'') ?h (demo_step ''data_inspector'')
                              (init_state 0))) = (x, st2)"
    by (rule prod.exhaust)
  with echo_report_step [of "ascii ''q''" ?h] have x: "x = None"
    by (metis fst_conv)
  have run: "exec_steps (registry ?ag) (ascii ''q'') ?h (take MAX_STEPS demo_report_plan)
               (init_state 0) = (None, st2)"
    unfolding tk using s2 x
    by (simp add: demo_report_plan_def echo_inspector_step echo_agent_def)
  have ex: "\<exists>res. fst (process_query demo_clock demo_clock (ascii ''q'') ?ag 0) = Inr res"
    unfolding process_query_def Let_def h1 using n run
    by (simp add: echo_agent_def demo_llm_def)
  then obtain res where r: "fst (process_query demo_clock demo_clock (ascii ''q'') ?ag 0) = Inr res" ..
  from c0 e r have "take 2 (tool_results res) =
        [\<lparr>success = True, result = ascii ''ok'', data = None, image_path = None,
          dataframe = None, tool = Some (ascii ''data_inspector''),
          reason = Some (ascii ''r'')\<rparr>,
         \<lparr>success = True,
          result = [10, 10] @ ascii ''### data_inspector (r)'' @ [10] @ ascii ''ok'',
          data = None, image_path = None, dataframe = None,
          tool = Some (ascii ''report_generator''), reason = Some (ascii ''r'')\<rparr>]"
    by (simp add: echo_after_inspector_def step_why_def demo_step_def numeral_2_eq_2)
  with r show ?thesis by (auto simp: echo_after_inspector_def)
qed


section \<open>The registry as a fault boundary\<close>

lemma safe_execute_converts:
  assumes "execute t kw w = (Inl e, w')"
  shows "safe_execute t kw w =
           (failure ([24037, 20855, 32] @ name t @ [32, 25191, 34892, 22833, 36133, 58, 32]
                     @ exc_str e), w')"
  using assms by (simp add: safe_execute_def)

lemma safe_execute_passes:
  assumes "execute t kw w = (Inr r, w')"
  shows "safe_execute t kw w = (r, w')"
  using assms by (simp add: safe_execute_def)

lemma registry_execute_bound:
  assumes "binds args"
  shows "\<exists>r w'. registry_execute reg n args w = (Inr r, w') \<and>
           (registry_get reg n = None \<longrightarrow>
              r = failure ([26410, 25214, 21040, 24037, 20855, 58, 32] @ n) \<and> \<not> success r \<and> w' = w) \<and>
           (\<forall>t. registry_get reg n = Some t \<longrightarrow> (r, w') = safe_execute t args w)"
  using assms
  by (auto simp: registry_execute_def execute_body_def failure_def split: option.splits prod.splits)

text \<open>
  C1.  The claim: for every tool name and every argument mapping,
  \<^verbatim>\<open>registry.execute\<close> never raises.  (\<open>registry_execute_bound\<close> shows that it
  holds for every mapping without the keys \<^verbatim>\<open>self\<close> and \<^verbatim>\<open>name\<close>.)  For the
  registered tool \<^verbatim>\<open>data_inspector\<close> and the mapping \<^verbatim>\<open>{"name": "orders"}\<close> the
  call raises \<^verbatim>\<open>TypeError\<close>: the key collides with the parameter \<^verbatim>\<open>name\<close> of
  \<^verbatim>\<open>execute(self, name, **kwargs)\<close>, outside every \<^verbatim>\<open>try\<close>.
\<close>

theorem registry_execute_name_collision:
  "registry_execute demo_registry (ascii ''data_inspector'')
     [(ascii ''name'', JStr (ascii ''orders''))] (0::nat) =
   (Inl (PyException (ascii ''TypeError'')
          (ascii ''execute() got multiple values for argument'')), 0)"
  by (simp add: registry_execute_def binds_def dict_get_def ascii_def)

section \<open>The fallback chart type\<close>

lemma first_keyword_type_none:
  "list_all (\<lambda>(ctype, keywords). list_all (\<lambda>kw. \<not> contains kw q) keywords) m \<Longrightarrow>
     first_keyword_type m q = None"
  by (induction m) (auto simp: list_ex_iff list_all_iff)

text \<open>
  C9.  For a frame whose first column is not datetime-typed and a question in which,
  lower-cased as the source does, none of the keywords occurs, the inferred chart type is
  \<^verbatim>\<open>bar\<close> whatever the number of rows: the branch \<^verbatim>\<open>len(df) <= 15\<close> and the
  final \<^verbatim>\<open>return\<close> give the same value.
\<close>

theorem infer_chart_type_row_count_no_op:
  assumes "columns df = (x_col, ty) # cols" and "ty \<noteq> Datetime"
      and "no_chart_keyword (lower qtext)"
  shows "infer_chart_type lower (df\<lparr>nrows := n\<rparr>) qtext = Inr (ascii ''bar'')"
  using assms
  by (simp add: infer_chart_type_def Let_def no_chart_keyword_def first_keyword_type_none)

theorem infer_chart_type_witness:
  "infer_chart_type (\<lambda>s. s) (\<lparr>columns = [(ascii ''brand'', Object)], nrows = 3\<rparr>\<lparr>nrows := 100\<rparr>)
     (ascii ''sales'') = Inr (ascii ''bar'')"
  by (rule infer_chart_type_row_count_no_op [where x_col = "ascii ''brand''" and ty = Object and cols = "[]"])
     (simp_all add: no_chart_keyword_def keyword_map_def ascii_def)


section \<open>The tools' short circuits\<close>

lemma extract_sql_none:
  "extract_sql up t = None \<longleftrightarrow> \<not> contains (ascii ''SELECT'') (up (unfence_sql t))"
  by (simp add: extract_sql_def Let_def)

lemma generate_viz_sql_reply:
  assumes "get_table_info env w = (Inr schema, w1)"
      and "chat env (VizSqlPrompt schema q) w1 = (Inr reply, w2)"
  shows "generate_viz_sql env q w = (Inr (extract_sql (str_upper env) reply), w2)"
  using assms by (simp add: generate_viz_sql_def)

lemma generate_analysis_sql_reply:
  assumes "get_table_info env w = (Inr schema, w1)"
      and "chat env (AnalysisSqlPrompt schema q atype) w1 = (Inr reply, w2)"
  shows "generate_analysis_sql env q atype w = (Inr (extract_sql (str_upper env) reply), w2)"
  using assms by (simp add: generate_analysis_sql_def)

lemma viz_render_empty:
  "execute_sql_df env s w = (Inr df, w1) \<Longrightarrow> nrows df = 0 \<Longrightarrow>
     fails_without_artifact
       (case execute_sql_to_df env s w of (dfo, w2) \<Rightarrow> viz_render env kw q s dfo w2)"
  by (simp add: execute_sql_to_df_def viz_render_def df_empty_def fails_without_artifact_def
      failure_with_sql_def failure_def)

lemma viz_fails_no_sql:
  "viz_no_sql env kw w \<Longrightarrow> fails_without_artifact (viz_execute env kw w)"
  by (auto simp: viz_no_sql_def viz_execute_def Let_def fails_without_artifact_def failure_def
      split: prod.splits sum.splits)

lemma viz_fails_zero_rows:
  "viz_zero_rows env kw w \<Longrightarrow> fails_without_artifact (viz_execute env kw w)"
  unfolding viz_zero_rows_def viz_execute_def Let_def no_rows_def
  by (auto split: if_splits prod.splits sum.splits
      simp: execute_sql_to_df_def viz_render_def df_empty_def fails_without_artifact_def
      failure_with_sql_def failure_def)

lemma stat_fails_no_sql:
  "stat_no_sql env kw w \<Longrightarrow> fails_without_artifact (stat_execute env kw w)"
  by (auto simp: stat_no_sql_def stat_execute_def stat_type_def Let_def fails_without_artifact_def
      failure_def split: prod.splits sum.splits)

lemma stat_fails_zero_rows:
  "stat_zero_rows env kw w \<Longrightarrow> fails_without_artifact (stat_execute env kw w)"
  unfolding stat_zero_rows_def stat_execute_def Let_def no_rows_def stat_type_def
  by (auto split: if_splits prod.splits sum.splits
      simp: safe_query_def stat_analyse_def df_empty_def fails_without_artifact_def failure_def)

lemma viz_stops_no_sql:
  assumes "viz_no_sql env kw w"
  shows "viz_execute env kw w =
           (Inr (failure [26080, 27861, 20026, 35813, 38382, 39064, 29983, 25104,
                          21487, 35270, 21270, 83, 81, 76]),
            snd (generate_viz_sql env (text_of (question kw)) w))"
  using assms
  by (auto simp: viz_no_sql_def viz_execute_def Let_def split: prod.splits sum.splits)

lemma viz_stops_zero_rows:
  assumes "viz_zero_rows env kw w"
  shows "\<exists>s w1. (if text_of (sql kw) \<noteq> [] then s = text_of (sql kw) \<and> w1 = w
                  else generate_viz_sql env (text_of (question kw)) w = (Inr (Some s), w1)) \<and>
           viz_execute env kw w =
             (Inr (failure_with_sql
                     [26597, 35810, 26410, 36820, 22238, 25968, 25454, 65292, 26080, 27861,
                      29983, 25104, 21487, 35270, 21270] s),
              snd (execute_sql_df env s w1))"
proof (cases "text_of (sql kw) \<noteq> []")
  case True
  with assms have "no_rows env (text_of (sql kw)) w" by (simp add: viz_zero_rows_def)
  then obtain df w2 where q: "execute_sql_df env (text_of (sql kw)) w = (Inr df, w2)" "nrows df = 0"
    by (auto simp: no_rows_def split: prod.splits sum.splits)
  then have "viz_execute env kw w =
       (Inr (failure_with_sql
                     [26597, 35810, 26410, 36820, 22238, 25968, 25454, 65292, 26080, 27861,
                      29983, 25104, 21487, 35270, 21270] (text_of (sql kw))),
        snd (execute_sql_df env (text_of (sql kw)) w))"
    using True by (simp add: viz_execute_def Let_def execute_sql_to_df_def viz_render_def df_empty_def)
  with True show ?thesis by auto
next
  case False
  with assms obtain g w1 where g: "generate_viz_sql env (text_of (question kw)) w = (Inr g, w1)"
      "text_of g \<noteq> []" "no_rows env (text_of g) w1" "text_of (question kw) \<noteq> []"
    by (auto simp: viz_zero_rows_def split: prod.splits sum.splits)
  then obtain s where s: "g = Some s" "s \<noteq> []" by (cases g) (auto simp: text_of_def)
  from g(3) s obtain df w2 where q: "execute_sql_df env s w1 = (Inr df, w2)" "nrows df = 0"
    by (auto simp: no_rows_def text_of_def split: prod.splits sum.splits)
  have "viz_execute env kw w =
       (Inr (failure_with_sql
                     [26597, 35810, 26410, 36820, 22238, 25968, 25454, 65292, 26080, 27861,
                      29983, 25104, 21487, 35270, 21270] s),
        snd (execute_sql_df env s w1))"
    using False g s q
    by (simp add: viz_execute_def Let_def execute_sql_to_df_def viz_render_def df_empty_def text_of_def)
  with False g(1) s show ?thesis by auto
qed

lemma stat_stops_no_sql:
  assumes "stat_no_sql env kw w"
  shows "stat_execute env kw w =
           (Inr (failure [26080, 27861, 29983, 25104, 20998, 26512, 83, 81, 76]),
            snd (generate_analysis_sql env (text_of (question kw)) (stat_type kw) w))"
  using assms
  by (auto simp: stat_no_sql_def stat_execute_def stat_type_def Let_def split: prod.splits sum.splits)

lemma stat_stops_zero_rows:
  assumes "stat_zero_rows env kw w"
  shows "\<exists>s w1. (if text_of (sql kw) \<noteq> [] then s = text_of (sql kw) \<and> w1 = w
                  else generate_analysis_sql env (text_of (question kw)) (stat_type kw) w
                         = (Inr (Some s), w1)) \<and>
           stat_execute env kw w =
             (Inr (failure [26597, 35810, 32467, 26524, 20026, 31354]),
              snd (execute_sql_df env s w1))"
proof (cases "text_of (sql kw) \<noteq> []")
  case True
  with assms have "no_rows env (text_of (sql kw)) w" by (simp add: stat_zero_rows_def)
  then obtain df w2 where q: "execute_sql_df env (text_of (sql kw)) w = (Inr df, w2)" "nrows df = 0"
    by (auto simp: no_rows_def split: prod.splits sum.splits)
  then have "stat_execute env kw w =
       (Inr (failure [26597, 35810, 32467, 26524, 20026, 31354]),
        snd (execute_sql_df env (text_of (sql kw)) w))"
    using True by (simp add: stat_execute_def Let_def stat_analyse_def df_empty_def)
  with True show ?thesis by auto
next
  case False
  with assms obtain g w1 where
      g: "generate_analysis_sql env (text_of (question kw)) (stat_type kw) w = (Inr g, w1)"
      "text_of g \<noteq> []" "no_rows env (text_of g) w1" "text_of (question kw) \<noteq> []"
    by (auto simp: stat_zero_rows_def split: prod.splits sum.splits)
  then obtain s where s: "g = Some s" "s \<noteq> []" by (cases g) (auto simp: text_of_def)
  from g(3) s obtain df w2 where q: "execute_sql_df env s w1 = (Inr df, w2)" "nrows df = 0"
    by (auto simp: no_rows_def text_of_def split: prod.splits sum.splits)
  have "stat_execute env kw w =
       (Inr (failure [26597, 35810, 32467, 26524, 20026, 31354]),
        snd (execute_sql_df env s w1))"
    using False g s q
    by (simp add: stat_execute_def stat_type_def Let_def safe_query_def stat_analyse_def
        df_empty_def text_of_def)
  with False g(1) s show ?thesis by auto
qed

text \<open>
  C8.  In both tools, when the language-model step yields no query or the executed query
  returns no rows, \<^verbatim>\<open>execute\<close> returns \<^verbatim>\<open>success = False\<close> with no
  \<^verbatim>\<open>image_path\<close>, and it returns at that point: what it returns is the failure
  dictionary of that branch, and the world is the one the last sub-step left, the
  generation of the query in the first case and the query \<open>s\<close> in the second.  So
  nothing that acts on the world runs after it: neither \<^verbatim>\<open>_create_chart\<close> nor one
  of the five analyses.
\<close>

theorem tools_short_circuit:
  "(viz_no_sql env kw w \<longrightarrow>
      fails_without_artifact (viz_execute env kw w) \<and>
      viz_execute env kw w =
        (Inr (failure [26080, 27861, 20026, 35813, 38382, 39064, 29983, 25104,
                       21487, 35270, 21270, 83, 81, 76]),
         snd (generate_viz_sql env (text_of (question kw)) w))) \<and>
   (viz_zero_rows env kw w \<longrightarrow>
      fails_without_artifact (viz_execute env kw w) \<and>
      (\<exists>s w1. (if text_of (sql kw) \<noteq> [] then s = text_of (sql kw) \<and> w1 = w
                else generate_viz_sql env (text_of (question kw)) w = (Inr (Some s), w1)) \<and>
         viz_execute env kw w =
           (Inr (failure_with_sql
                   [26597, 35810, 26410, 36820, 22238, 25968, 25454, 65292, 26080, 27861,
                    29983, 25104, 21487, 35270, 21270] s),
            snd (execute_sql_df env s w1)))) \<and>
   (stat_no_sql env kw w \<longrightarrow>
      fails_without_artifact (stat_execute env kw w) \<and>
      stat_execute env kw w =
        (Inr (failure [26080, 27861, 29983, 25104, 20998, 26512, 83, 81, 76]),
         snd (generate_analysis_sql env (text_of (question kw)) (stat_type kw) w))) \<and>
   (stat_zero_rows env kw w \<longrightarrow>
      fails_without_artifact (stat_execute env kw w) \<and>
      (\<exists>s w1. (if text_of (sql kw) \<noteq> [] then s = text_of (sql kw) \<and> w1 = w
                else generate_analysis_sql env (text_of (question kw)) (stat_type kw) w
                       = (Inr (Some s), w1)) \<and>
         stat_execute env kw w =
           (Inr (failure [26597, 35810, 32467, 26524, 20026, 31354]),
            snd (execute_sql_df env s w1))))"
  using viz_fails_no_sql [of env kw w] viz_fails_zero_rows [of env kw w]
    stat_fails_no_sql [of env kw w] stat_fails_zero_rows [of env kw w]
    viz_stops_no_sql [of env kw w] viz_stops_zero_rows [of env kw w]
    stat_stops_no_sql [of env kw w] stat_stops_zero_rows [of env kw w]
  by (intro conjI impI; assumption?) 


lemma demo_reply_has_no_sql:
  "extract_sql ascii_upper (ascii ''Sorry, no query.'') = None"
  by (simp add: extract_sql_def unfence_sql_def py_strip_def py_lstrip_def py_rstrip_def
      py_isspace_def ascii_def ascii_upper_def Let_def)

theorem tools_short_circuit_witness:
  "viz_no_sql demo_env (ask ''sales trend'') 0 \<and>
   viz_execute demo_env (ask ''sales trend'') 0 =
     (Inr (failure [26080, 27861, 20026, 35813, 38382, 39064, 29983, 25104,
                    21487, 35270, 21270, 83, 81, 76]), 1) \<and>
   viz_zero_rows demo_env (run_sql ''SELECT brand FROM orders WHERE 1 = 0'') 0 \<and>
   viz_execute demo_env (run_sql ''SELECT brand FROM orders WHERE 1 = 0'') 0 =
     (Inr (failure_with_sql
             [26597, 35810, 26410, 36820, 22238, 25968, 25454, 65292, 26080, 27861,
              29983, 25104, 21487, 35270, 21270]
             (ascii ''SELECT brand FROM orders WHERE 1 = 0'')), 10) \<and>
   stat_no_sql demo_env (ask ''sales trend'') 0 \<and>
   stat_execute demo_env (ask ''sales trend'') 0 =
     (Inr (failure [26080, 27861, 29983, 25104, 20998, 26512, 83, 81, 76]), 1) \<and>
   stat_zero_rows demo_env (run_sql ''SELECT brand FROM orders WHERE 1 = 0'') 0 \<and>
   stat_execute demo_env (run_sql ''SELECT brand FROM orders WHERE 1 = 0'') 0 =
     (Inr (failure [26597, 35810, 32467, 26524, 20026, 31354]), 10)"
proof -
  let ?ask = "ask ''sales trend''"
  let ?run = "run_sql ''SELECT brand FROM orders WHERE 1 = 0''"
  have q: "text_of (question ?ask) \<noteq> []" "text_of (sql ?ask) = []"
    by (simp_all add: ask_def text_of_def ascii_def)
  have s: "text_of (sql ?run) \<noteq> []"
      "text_of (sql ?run) = ascii ''SELECT brand FROM orders WHERE 1 = 0''"
    by (simp_all add: run_sql_def text_of_def ascii_def)
  have gv: "generate_viz_sql demo_env (text_of (question ?ask)) 0 = (Inr None, 1)"
    by (simp add: generate_viz_sql_def demo_env_def demo_reply_has_no_sql)
  have ga: "generate_analysis_sql demo_env (text_of (question ?ask)) (stat_type ?ask) 0 = (Inr None, 1)"
    by (simp add: generate_analysis_sql_def demo_env_def demo_reply_has_no_sql)
  have ex: "snd (execute_sql_df demo_env x 0) = 10" for x
    by (simp add: demo_env_def)
  have a: "viz_no_sql demo_env ?ask 0"
    using q gv by (simp add: viz_no_sql_def text_of_def)
  have b: "stat_no_sql demo_env ?ask 0"
    using q ga by (simp add: stat_no_sql_def text_of_def)
  have c: "viz_zero_rows demo_env ?run 0"
    using s(1) by (simp add: viz_zero_rows_def no_rows_def demo_env_def)
  have d: "stat_zero_rows demo_env ?run 0"
    using s(1) by (simp add: stat_zero_rows_def no_rows_def demo_env_def)
  note t1 = tools_short_circuit [of demo_env ?ask 0]
  note t2 = tools_short_circuit [of demo_env ?run 0]
  from t1 a gv have a': "viz_execute demo_env ?ask 0 =
     (Inr (failure [26080, 27861, 20026, 35813, 38382, 39064, 29983, 25104,
                    21487, 35270, 21270, 83, 81, 76]), 1)"
    by simp
  from t1 b ga have b': "stat_execute demo_env ?ask 0 =
     (Inr (failure [26080, 27861, 29983, 25104, 20998, 26512, 83, 81, 76]), 1)"
    by simp
  from t2 c s ex have c': "viz_execute demo_env ?run 0 =
     (Inr (failure_with_sql
             [26597, 35810, 26410, 36820, 22238, 25968, 25454, 65292, 26080, 27861,
              29983, 25104, 21487, 35270, 21270]
             (ascii ''SELECT brand FROM orders WHERE 1 = 0'')), 10)"
    by auto
  from t2 d s ex have d': "stat_execute demo_env ?run 0 =
     (Inr (failure [26597, 35810, 32467, 26524, 20026, 31354]), 10)"
    by auto
  from a b c d a' b' c' d' show ?thesis by simp
qed


section \<open>The decoder: what a token consumes, and whitespace around a text\<close>


lemma split_first_Some: "split_first m s = Some (a, b) \<Longrightarrow> s = a @ m @ b"
proof (induction s arbitrary: a)
  case Nil
  then show ?case by (auto split: if_splits)
next
  case (Cons c cs)
  show ?case
  proof (cases "prefix m (c # cs)")
    case True
    with Cons.prems have "a = []" "b = drop (length m) (c # cs)" by auto
    with True show ?thesis by (auto simp: prefix_def)
  next
    case False
    with Cons.prems obtain a' where "split_first m cs = Some (a', b)" "a = c # a'"
      by (auto split: option.splits)
    with Cons.IH show ?thesis by simp
  qed
qed

lemma split_first_None: "split_first m s = None \<longleftrightarrow> \<not> contains m s"
  by (induction s) (auto split: option.splits)





lemma ws_only_simps [simp]:
  "ws_only []" "ws_only (c # w) = (is_json_ws c \<and> ws_only w)"
  "ws_only (u @ w) = (ws_only u \<and> ws_only w)"
  by (simp_all add: ws_only_def)
















lemma ws_only_hd: "ws_only w \<Longrightarrow> w = c # w' \<Longrightarrow> is_json_ws c"
  by simp





























lemma lex_Nil [simp]: "lex_json [] = Some []"
  by (simp add: lex_json.simps)










lemma parse_value_Nil [simp]: "parse_value [] = None"
  by (simp add: parse_value.simps)

lemma parse_value_Cons [simp]:
  "parse_value (tok # r) =
     (case tok of
        TValue v \<Rightarrow> Some (v, r)
      | TLBracket \<Rightarrow>
          (case r of
             TRBracket # r' \<Rightarrow> Some (JArray [], r')
           | _ \<Rightarrow> (case parse_elements r of
                     None \<Rightarrow> None
                   | Some (vs, r') \<Rightarrow> Some (JArray vs, r')))
      | TLBrace \<Rightarrow>
          (case r of
             TRBrace # r' \<Rightarrow> Some (JObject [], r')
           | _ \<Rightarrow> (case parse_members r of
                     None \<Rightarrow> None
                   | Some (ps, r') \<Rightarrow> Some (JObject (dict_of ps), r')))
      | _ \<Rightarrow> None)"
  by (simp add: parse_value.simps [of "tok # r"] split: token.splits)




































section \<open>The plan parser\<close>





















end
